theory Spec2Isabelle
  imports Complex_Main "HOL-Library.Sublist"
begin

section \<open>Data model of the entity store (crmStore)\<close>

text \<open>
  A JavaScript \<^verbatim>\<open>Date\<close> is modelled by its time value, the number of milliseconds since the
  epoch. A \<^verbatim>\<open>number\<close> is modelled as a rational: every finite double is one; the rounding
  of IEEE arithmetic and the values NaN and Infinity as inputs are outside the model.
  Strings are lists of characters.
\<close>

type_synonym Date = int
type_synonym number = rat

text \<open>
  The store reads the wall clock (\<^verbatim>\<open>new Date()\<close>) and the platform's id generator
  (\<^verbatim>\<open>crypto.randomUUID()\<close>). Both are inputs of the model: an add takes the string the
  generator returned, and every action that stamps a record takes a \<open>Clock\<close>, the readings
  of that call: \<open>now n\<close> is the value of the \<open>n\<close>-th evaluation of \<^verbatim>\<open>new Date()\<close> during the
  call, counted from 0.
\<close>

type_synonym Clock = "nat \<Rightarrow> Date"

datatype LeadStatus = New | Qualified | Converted | Lost

datatype Stage = Prospecting | Qualification | Proposal | Negotiation | ClosedWon | ClosedLost

datatype Priority = Low | Medium | High

datatype TaskStatus = Pending | InProgress | Completed

datatype RelatedType = RelContact | RelLead | RelDeal

record RelatedTo =
  related_type :: RelatedType
  related_id :: string

record Contact =
  contact_id :: string
  contact_name :: string
  contact_email :: string
  contact_phone :: string
  contact_company :: string
  contact_position :: string
  contact_tags :: "string list"
  contact_createdAt :: Date
  contact_updatedAt :: Date
  contact_notes :: string

record Lead =
  lead_id :: string
  lead_name :: string
  lead_email :: string
  lead_phone :: string
  lead_company :: string
  lead_value :: number
  lead_status :: LeadStatus
  lead_assignedTo :: string
  lead_source :: string
  lead_createdAt :: Date
  lead_updatedAt :: Date
  lead_notes :: string

record Deal =
  deal_id :: string
  deal_title :: string
  deal_value :: number
  deal_stage :: Stage
  deal_contactId :: string
  deal_assignedTo :: string
  deal_closeDate :: Date
  deal_probability :: number
  deal_createdAt :: Date
  deal_updatedAt :: Date
  deal_notes :: string

record Task =
  task_id :: string
  task_title :: string
  task_description :: string
  task_dueDate :: Date
  task_priority :: Priority
  task_status :: TaskStatus
  task_assignedTo :: string
  task_relatedTo :: "RelatedTo option"
  task_createdAt :: Date
  task_updatedAt :: Date

text \<open>
  The argument of an add action has type \<^verbatim>\<open>Omit<T, 'id' | 'createdAt' | 'updatedAt'>\<close>:
  the record without the three fields the store assigns.
\<close>

record ContactInput =
  in_contact_name :: string
  in_contact_email :: string
  in_contact_phone :: string
  in_contact_company :: string
  in_contact_position :: string
  in_contact_tags :: "string list"
  in_contact_notes :: string

record LeadInput =
  in_lead_name :: string
  in_lead_email :: string
  in_lead_phone :: string
  in_lead_company :: string
  in_lead_value :: number
  in_lead_status :: LeadStatus
  in_lead_assignedTo :: string
  in_lead_source :: string
  in_lead_notes :: string

record DealInput =
  in_deal_title :: string
  in_deal_value :: number
  in_deal_stage :: Stage
  in_deal_contactId :: string
  in_deal_assignedTo :: string
  in_deal_closeDate :: Date
  in_deal_probability :: number
  in_deal_notes :: string

record TaskInput =
  in_task_title :: string
  in_task_description :: string
  in_task_dueDate :: Date
  in_task_priority :: Priority
  in_task_status :: TaskStatus
  in_task_assignedTo :: string
  in_task_relatedTo :: "RelatedTo option"

text \<open>
  The second argument of an update action has type \<^verbatim>\<open>Partial<T>\<close>: every key of the record,
  each optional, \<open>id\<close>, \<open>createdAt\<close> and \<open>updatedAt\<close> included. \<open>None\<close> is an absent key,
  \<open>Some v\<close> a key present with value \<open>v\<close>. (A key present with the value \<^verbatim>\<open>undefined\<close> is
  not modelled.)
\<close>

record ContactPartial =
  p_contact_id :: "string option"
  p_contact_name :: "string option"
  p_contact_email :: "string option"
  p_contact_phone :: "string option"
  p_contact_company :: "string option"
  p_contact_position :: "string option"
  p_contact_tags :: "string list option"
  p_contact_createdAt :: "Date option"
  p_contact_updatedAt :: "Date option"
  p_contact_notes :: "string option"

record LeadPartial =
  p_lead_id :: "string option"
  p_lead_name :: "string option"
  p_lead_email :: "string option"
  p_lead_phone :: "string option"
  p_lead_company :: "string option"
  p_lead_value :: "number option"
  p_lead_status :: "LeadStatus option"
  p_lead_assignedTo :: "string option"
  p_lead_source :: "string option"
  p_lead_createdAt :: "Date option"
  p_lead_updatedAt :: "Date option"
  p_lead_notes :: "string option"

record DealPartial =
  p_deal_id :: "string option"
  p_deal_title :: "string option"
  p_deal_value :: "number option"
  p_deal_stage :: "Stage option"
  p_deal_contactId :: "string option"
  p_deal_assignedTo :: "string option"
  p_deal_closeDate :: "Date option"
  p_deal_probability :: "number option"
  p_deal_createdAt :: "Date option"
  p_deal_updatedAt :: "Date option"
  p_deal_notes :: "string option"

record TaskPartial =
  p_task_id :: "string option"
  p_task_title :: "string option"
  p_task_description :: "string option"
  p_task_dueDate :: "Date option"
  p_task_priority :: "Priority option"
  p_task_status :: "TaskStatus option"
  p_task_assignedTo :: "string option"
  p_task_relatedTo :: "RelatedTo option"
  p_task_createdAt :: "Date option"
  p_task_updatedAt :: "Date option"

record CRMState =
  contacts :: "Contact list"
  leads :: "Lead list"
  deals :: "Deal list"
  tasks :: "Task list"

definition initialState :: CRMState where
  "initialState = \<lparr>contacts = [], leads = [], deals = [], tasks = []\<rparr>"

text \<open>
  What a call of a store action evaluates to. The add, update and delete actions are arrow
  functions with a block body and no \<^verbatim>\<open>return\<close> statement (their declared type is
  \<^verbatim>\<open>=> void\<close>), so a call evaluates to \<^verbatim>\<open>undefined\<close>.
\<close>

datatype ReturnValue = Undefined | ReturnedString string

subsection \<open>Object spread and the array methods the store uses\<close>

text \<open>
  \<^verbatim>\<open>{ ...record, ...updates }\<close>, one key at a time: a key present in \<open>updates\<close> wins, an
  absent one keeps the record's value.
\<close>

fun spread :: "'a \<Rightarrow> 'a option \<Rightarrow> 'a" where
  "spread old None = old"
| "spread old (Some v) = v"

text \<open>
  \<^verbatim>\<open>xs.map(x => p(x) ? f(x, new Date()) : x)\<close>: the callback reads the clock once for every
  element that matches, in array order, and not at all for the others.
\<close>

fun map_clock :: "('a \<Rightarrow> bool) \<Rightarrow> ('a \<Rightarrow> Date \<Rightarrow> 'a) \<Rightarrow> Clock \<Rightarrow> 'a list \<Rightarrow> 'a list" where
  "map_clock p f now [] = []"
| "map_clock p f now (x # xs) =
     (if p x then f x (now 0) # map_clock p f (\<lambda>n. now (Suc n)) xs
      else x # map_clock p f now xs)"

subsection \<open>Contacts\<close>

text \<open>
  The three actions of a collection. \<^verbatim>\<open>set((state) => ({ contacts: ... }))\<close> replaces the
  collection and keeps the other keys of the store. An add evaluates the generator first
  and then the clock twice, for \<open>createdAt\<close> and for \<open>updatedAt\<close>; the keys \<open>id\<close>, \<open>createdAt\<close>
  and \<open>updatedAt\<close> come after the spread of the input and \<open>updatedAt\<close> after the spread of
  the updates, so they win. The actions of the other three collections are the same code
  over their own record type.
\<close>

definition addContact :: "string \<Rightarrow> Clock \<Rightarrow> ContactInput \<Rightarrow> CRMState \<Rightarrow> ReturnValue \<times> CRMState" where
  "addContact uuid now contact state =
     (let newContact = \<lparr>
            contact_id = uuid,
            contact_name = in_contact_name contact,
            contact_email = in_contact_email contact,
            contact_phone = in_contact_phone contact,
            contact_company = in_contact_company contact,
            contact_position = in_contact_position contact,
            contact_tags = in_contact_tags contact,
            contact_createdAt = now 0,
            contact_updatedAt = now 1,
            contact_notes = in_contact_notes contact\<rparr>
      in (Undefined, state\<lparr>contacts := contacts state @ [newContact]\<rparr>))"

definition mergeContact :: "ContactPartial \<Rightarrow> Contact \<Rightarrow> Date \<Rightarrow> Contact" where
  "mergeContact updates contact t = \<lparr>
     contact_id = spread (contact_id contact) (p_contact_id updates),
     contact_name = spread (contact_name contact) (p_contact_name updates),
     contact_email = spread (contact_email contact) (p_contact_email updates),
     contact_phone = spread (contact_phone contact) (p_contact_phone updates),
     contact_company = spread (contact_company contact) (p_contact_company updates),
     contact_position = spread (contact_position contact) (p_contact_position updates),
     contact_tags = spread (contact_tags contact) (p_contact_tags updates),
     contact_createdAt = spread (contact_createdAt contact) (p_contact_createdAt updates),
     contact_updatedAt = t,
     contact_notes = spread (contact_notes contact) (p_contact_notes updates)\<rparr>"

definition updateContact :: "Clock \<Rightarrow> string \<Rightarrow> ContactPartial \<Rightarrow> CRMState \<Rightarrow> CRMState" where
  "updateContact now i updates state =
     state\<lparr>contacts :=
       map_clock (\<lambda>contact. contact_id contact = i) (mergeContact updates) now (contacts state)\<rparr>"

definition deleteContact :: "string \<Rightarrow> CRMState \<Rightarrow> CRMState" where
  "deleteContact i state =
     state\<lparr>contacts := filter (\<lambda>contact. contact_id contact \<noteq> i) (contacts state)\<rparr>"

subsection \<open>Leads\<close>

definition addLead :: "string \<Rightarrow> Clock \<Rightarrow> LeadInput \<Rightarrow> CRMState \<Rightarrow> ReturnValue \<times> CRMState" where
  "addLead uuid now lead state =
     (let newLead = \<lparr>
            lead_id = uuid,
            lead_name = in_lead_name lead,
            lead_email = in_lead_email lead,
            lead_phone = in_lead_phone lead,
            lead_company = in_lead_company lead,
            lead_value = in_lead_value lead,
            lead_status = in_lead_status lead,
            lead_assignedTo = in_lead_assignedTo lead,
            lead_source = in_lead_source lead,
            lead_createdAt = now 0,
            lead_updatedAt = now 1,
            lead_notes = in_lead_notes lead\<rparr>
      in (Undefined, state\<lparr>leads := leads state @ [newLead]\<rparr>))"

definition mergeLead :: "LeadPartial \<Rightarrow> Lead \<Rightarrow> Date \<Rightarrow> Lead" where
  "mergeLead updates lead t = \<lparr>
     lead_id = spread (lead_id lead) (p_lead_id updates),
     lead_name = spread (lead_name lead) (p_lead_name updates),
     lead_email = spread (lead_email lead) (p_lead_email updates),
     lead_phone = spread (lead_phone lead) (p_lead_phone updates),
     lead_company = spread (lead_company lead) (p_lead_company updates),
     lead_value = spread (lead_value lead) (p_lead_value updates),
     lead_status = spread (lead_status lead) (p_lead_status updates),
     lead_assignedTo = spread (lead_assignedTo lead) (p_lead_assignedTo updates),
     lead_source = spread (lead_source lead) (p_lead_source updates),
     lead_createdAt = spread (lead_createdAt lead) (p_lead_createdAt updates),
     lead_updatedAt = t,
     lead_notes = spread (lead_notes lead) (p_lead_notes updates)\<rparr>"

definition updateLead :: "Clock \<Rightarrow> string \<Rightarrow> LeadPartial \<Rightarrow> CRMState \<Rightarrow> CRMState" where
  "updateLead now i updates state =
     state\<lparr>leads := map_clock (\<lambda>lead. lead_id lead = i) (mergeLead updates) now (leads state)\<rparr>"

definition deleteLead :: "string \<Rightarrow> CRMState \<Rightarrow> CRMState" where
  "deleteLead i state = state\<lparr>leads := filter (\<lambda>lead. lead_id lead \<noteq> i) (leads state)\<rparr>"

subsection \<open>Deals\<close>

definition addDeal :: "string \<Rightarrow> Clock \<Rightarrow> DealInput \<Rightarrow> CRMState \<Rightarrow> ReturnValue \<times> CRMState" where
  "addDeal uuid now deal state =
     (let newDeal = \<lparr>
            deal_id = uuid,
            deal_title = in_deal_title deal,
            deal_value = in_deal_value deal,
            deal_stage = in_deal_stage deal,
            deal_contactId = in_deal_contactId deal,
            deal_assignedTo = in_deal_assignedTo deal,
            deal_closeDate = in_deal_closeDate deal,
            deal_probability = in_deal_probability deal,
            deal_createdAt = now 0,
            deal_updatedAt = now 1,
            deal_notes = in_deal_notes deal\<rparr>
      in (Undefined, state\<lparr>deals := deals state @ [newDeal]\<rparr>))"

definition mergeDeal :: "DealPartial \<Rightarrow> Deal \<Rightarrow> Date \<Rightarrow> Deal" where
  "mergeDeal updates deal t = \<lparr>
     deal_id = spread (deal_id deal) (p_deal_id updates),
     deal_title = spread (deal_title deal) (p_deal_title updates),
     deal_value = spread (deal_value deal) (p_deal_value updates),
     deal_stage = spread (deal_stage deal) (p_deal_stage updates),
     deal_contactId = spread (deal_contactId deal) (p_deal_contactId updates),
     deal_assignedTo = spread (deal_assignedTo deal) (p_deal_assignedTo updates),
     deal_closeDate = spread (deal_closeDate deal) (p_deal_closeDate updates),
     deal_probability = spread (deal_probability deal) (p_deal_probability updates),
     deal_createdAt = spread (deal_createdAt deal) (p_deal_createdAt updates),
     deal_updatedAt = t,
     deal_notes = spread (deal_notes deal) (p_deal_notes updates)\<rparr>"

definition updateDeal :: "Clock \<Rightarrow> string \<Rightarrow> DealPartial \<Rightarrow> CRMState \<Rightarrow> CRMState" where
  "updateDeal now i updates state =
     state\<lparr>deals := map_clock (\<lambda>deal. deal_id deal = i) (mergeDeal updates) now (deals state)\<rparr>"

definition deleteDeal :: "string \<Rightarrow> CRMState \<Rightarrow> CRMState" where
  "deleteDeal i state = state\<lparr>deals := filter (\<lambda>deal. deal_id deal \<noteq> i) (deals state)\<rparr>"

subsection \<open>Tasks\<close>

definition addTask :: "string \<Rightarrow> Clock \<Rightarrow> TaskInput \<Rightarrow> CRMState \<Rightarrow> ReturnValue \<times> CRMState" where
  "addTask uuid now task state =
     (let newTask = \<lparr>
            task_id = uuid,
            task_title = in_task_title task,
            task_description = in_task_description task,
            task_dueDate = in_task_dueDate task,
            task_priority = in_task_priority task,
            task_status = in_task_status task,
            task_assignedTo = in_task_assignedTo task,
            task_relatedTo = in_task_relatedTo task,
            task_createdAt = now 0,
            task_updatedAt = now 1\<rparr>
      in (Undefined, state\<lparr>tasks := tasks state @ [newTask]\<rparr>))"

definition mergeTask :: "TaskPartial \<Rightarrow> Task \<Rightarrow> Date \<Rightarrow> Task" where
  "mergeTask updates task t = \<lparr>
     task_id = spread (task_id task) (p_task_id updates),
     task_title = spread (task_title task) (p_task_title updates),
     task_description = spread (task_description task) (p_task_description updates),
     task_dueDate = spread (task_dueDate task) (p_task_dueDate updates),
     task_priority = spread (task_priority task) (p_task_priority updates),
     task_status = spread (task_status task) (p_task_status updates),
     task_assignedTo = spread (task_assignedTo task) (p_task_assignedTo updates),
     task_relatedTo =
       (case p_task_relatedTo updates of None \<Rightarrow> task_relatedTo task | Some r \<Rightarrow> Some r),
     task_createdAt = spread (task_createdAt task) (p_task_createdAt updates),
     task_updatedAt = t\<rparr>"

definition updateTask :: "Clock \<Rightarrow> string \<Rightarrow> TaskPartial \<Rightarrow> CRMState \<Rightarrow> CRMState" where
  "updateTask now i updates state =
     state\<lparr>tasks := map_clock (\<lambda>task. task_id task = i) (mergeTask updates) now (tasks state)\<rparr>"

definition deleteTask :: "string \<Rightarrow> CRMState \<Rightarrow> CRMState" where
  "deleteTask i state = state\<lparr>tasks := filter (\<lambda>task. task_id task \<noteq> i) (tasks state)\<rparr>"

section \<open>Session store (authStore)\<close>

datatype UserRole = Admin | Manager | Salesperson

record User =
  user_id :: string
  user_name :: string
  user_email :: string
  user_role :: UserRole
  user_avatar :: "string option"

record AuthState =
  user :: "User option"
  isAuthenticated :: bool

text \<open>
  \<open>login\<close> awaits a timer of 1000 ms and then runs the body below; the model is the body:
  the value the promise resolves to, and the store after \<^verbatim>\<open>set\<close>. The waiting itself is not
  modelled.
\<close>

definition login :: "string \<Rightarrow> string \<Rightarrow> AuthState \<Rightarrow> bool \<times> AuthState" where
  "login email password state =
     (let mockUser = \<lparr>
            user_id = ''1'',
            user_name = (if email = ''admin@crm.com'' then ''Admin User'' else ''John Doe''),
            user_email = email,
            user_role = (if email = ''admin@crm.com'' then Admin
                         else if email = ''manager@crm.com'' then Manager else Salesperson),
            user_avatar = None\<rparr>
      in (True, state\<lparr>user := Some mockUser, isAuthenticated := True\<rparr>))"

section \<open>Derived views\<close>

subsection \<open>Ratios (Dashboard, Analytics)\<close>

text \<open>
  The division of two numbers. A division by zero does not raise in JavaScript: it yields
  NaN or an infinity, here \<open>None\<close>.
\<close>

definition js_divide :: "number \<Rightarrow> number \<Rightarrow> number option" where
  "js_divide a b = (if b = 0 then None else Some (a / b))"

definition Dashboard_conversionRate :: "Lead list \<Rightarrow> number option" where
  "Dashboard_conversionRate leadList =
     (let totalLeads = length leadList;
          convertedLeads = length (filter (\<lambda>lead. lead_status lead = Converted) leadList)
      in if totalLeads > 0
         then map_option (\<lambda>q. q * 100) (js_divide (of_nat convertedLeads) (of_nat totalLeads))
         else Some 0)"

definition Analytics_conversionRate :: "Lead list \<Rightarrow> number option" where
  "Analytics_conversionRate leadList =
     (if length leadList > 0
      then map_option (\<lambda>q. q * 100)
             (js_divide (of_nat (length (filter (\<lambda>lead. lead_status lead = Converted) leadList)))
                        (of_nat (length leadList)))
      else Some 0)"

definition totalRevenue :: "Deal list \<Rightarrow> number" where
  "totalRevenue dealList =
     foldl (\<lambda>sum deal. sum + deal_value deal) 0
           (filter (\<lambda>deal. deal_stage deal = ClosedWon) dealList)"

definition avgDealSize :: "Deal list \<Rightarrow> number option" where
  "avgDealSize dealList =
     (if length (filter (\<lambda>d. deal_stage d = ClosedWon) dealList) > 0
      then js_divide (totalRevenue dealList)
                     (of_nat (length (filter (\<lambda>d. deal_stage d = ClosedWon) dealList)))
      else Some 0)"

subsection \<open>Filtering (Tasks, Leads, Contacts, Pipeline)\<close>

text \<open>
  The string values of the enumerations, as the TypeScript unions spell them: the filters
  compare them with the strings the select boxes hold.
\<close>

fun LeadStatus_str :: "LeadStatus \<Rightarrow> string" where
  "LeadStatus_str New = ''new''"
| "LeadStatus_str Qualified = ''qualified''"
| "LeadStatus_str Converted = ''converted''"
| "LeadStatus_str Lost = ''lost''"

fun TaskStatus_str :: "TaskStatus \<Rightarrow> string" where
  "TaskStatus_str Pending = ''pending''"
| "TaskStatus_str InProgress = ''in-progress''"
| "TaskStatus_str Completed = ''completed''"

fun Priority_str :: "Priority \<Rightarrow> string" where
  "Priority_str Low = ''low''"
| "Priority_str Medium = ''medium''"
| "Priority_str High = ''high''"

fun Stage_str :: "Stage \<Rightarrow> string" where
  "Stage_str Prospecting = ''prospecting''"
| "Stage_str Qualification = ''qualification''"
| "Stage_str Proposal = ''proposal''"
| "Stage_str Negotiation = ''negotiation''"
| "Stage_str ClosedWon = ''closed-won''"
| "Stage_str ClosedLost = ''closed-lost''"

text \<open>
  \<^verbatim>\<open>String.prototype.toLowerCase\<close> on the letters A to Z; every other character is kept.
  (The case mapping of characters outside ASCII is not modelled.)
\<close>

definition lowerChar :: "char \<Rightarrow> char" where
  "lowerChar c =
     (case map_of (zip ''ABCDEFGHIJKLMNOPQRSTUVWXYZ'' ''abcdefghijklmnopqrstuvwxyz'') c of
        Some l \<Rightarrow> l
      | None \<Rightarrow> c)"

definition toLowerCase :: "string \<Rightarrow> string" where
  "toLowerCase s = map lowerChar s"

text \<open>
  \<^verbatim>\<open>s.includes(t)\<close>: scan the positions of \<open>s\<close> from the left and test whether \<open>t\<close>
  starts there.
\<close>

fun startsAt :: "string \<Rightarrow> string \<Rightarrow> bool" where
  "startsAt s [] = True"
| "startsAt [] (y # t) = False"
| "startsAt (x # s) (y # t) = (x = y \<and> startsAt s t)"

fun string_includes :: "string \<Rightarrow> string \<Rightarrow> bool" where
  "string_includes [] t = startsAt [] t"
| "string_includes (x # s) t = (startsAt (x # s) t \<or> string_includes s t)"

definition filteredTasks :: "Task list \<Rightarrow> string \<Rightarrow> string \<Rightarrow> string \<Rightarrow> Task list" where
  "filteredTasks taskList searchTerm statusFilter priorityFilter =
     filter (\<lambda>task.
       let matchesSearch =
             (string_includes (toLowerCase (task_title task)) (toLowerCase searchTerm) \<or>
              string_includes (toLowerCase (task_description task)) (toLowerCase searchTerm));
           matchesStatus =
             (statusFilter = ''all'' \<or> TaskStatus_str (task_status task) = statusFilter);
           matchesPriority =
             (priorityFilter = ''all'' \<or> Priority_str (task_priority task) = priorityFilter)
       in matchesSearch \<and> matchesStatus \<and> matchesPriority) taskList"

definition filteredLeads :: "Lead list \<Rightarrow> string \<Rightarrow> string \<Rightarrow> Lead list" where
  "filteredLeads leadList searchTerm statusFilter =
     filter (\<lambda>lead.
       let matchesSearch =
             (string_includes (toLowerCase (lead_name lead)) (toLowerCase searchTerm) \<or>
              string_includes (toLowerCase (lead_email lead)) (toLowerCase searchTerm) \<or>
              string_includes (toLowerCase (lead_company lead)) (toLowerCase searchTerm));
           matchesStatus =
             (statusFilter = ''all'' \<or> LeadStatus_str (lead_status lead) = statusFilter)
       in matchesSearch \<and> matchesStatus) leadList"

definition filteredContacts :: "Contact list \<Rightarrow> string \<Rightarrow> Contact list" where
  "filteredContacts contactList searchTerm =
     filter (\<lambda>contact.
       string_includes (toLowerCase (contact_name contact)) (toLowerCase searchTerm) \<or>
       string_includes (toLowerCase (contact_email contact)) (toLowerCase searchTerm) \<or>
       string_includes (toLowerCase (contact_company contact)) (toLowerCase searchTerm)) contactList"

definition getDealsByStage :: "Deal list \<Rightarrow> string \<Rightarrow> Deal list" where
  "getDealsByStage dealList stage = filter (\<lambda>deal. Stage_str (deal_stage deal) = stage) dealList"

subsection \<open>Pipeline board: the end of a drag\<close>

record StageColumn =
  column_id :: Stage
  column_title :: string
  column_color :: string

definition pipelineStages :: "StageColumn list" where
  "pipelineStages =
     [\<lparr>column_id = Prospecting, column_title = ''Prospecting'', column_color = ''bg-blue-500''\<rparr>,
      \<lparr>column_id = Qualification, column_title = ''Qualification'', column_color = ''bg-yellow-500''\<rparr>,
      \<lparr>column_id = Proposal, column_title = ''Proposal'', column_color = ''bg-orange-500''\<rparr>,
      \<lparr>column_id = Negotiation, column_title = ''Negotiation'', column_color = ''bg-purple-500''\<rparr>,
      \<lparr>column_id = ClosedWon, column_title = ''Closed Won'', column_color = ''bg-green-500''\<rparr>,
      \<lparr>column_id = ClosedLost, column_title = ''Closed Lost'', column_color = ''bg-red-500''\<rparr>]"

text \<open>
  The event of the drag-and-drop library: the id of the dragged item and, when the item was
  dropped on something, the id of that drop target (\<open>over\<close> is \<^verbatim>\<open>null\<close> otherwise).
\<close>

record DragEndEvent =
  active_id :: string
  over_id :: "string option"

text \<open>The object literal \<^verbatim>\<open>{ stage: newStage }\<close>.\<close>

definition stageUpdate :: "Stage \<Rightarrow> DealPartial" where
  "stageUpdate newStage = \<lparr>
     p_deal_id = None, p_deal_title = None, p_deal_value = None, p_deal_stage = Some newStage,
     p_deal_contactId = None, p_deal_assignedTo = None, p_deal_closeDate = None,
     p_deal_probability = None, p_deal_createdAt = None, p_deal_updatedAt = None,
     p_deal_notes = None\<rparr>"

text \<open>A call of a store action made by the handler: \<^verbatim>\<open>updateDeal(id, updates)\<close>.\<close>

datatype StoreCall = UpdateDealCall string DealPartial

text \<open>
  The first half of \<open>handleDragEnd\<close>: the value of \<open>newStage\<close> for the id of the drop target.
  \<open>newStage\<close> is the empty string until a stage is found, and is then tested for
  truthiness: \<open>None\<close> is the empty string, \<open>Some stage\<close> the id of a stage. The ids of the
  columns and the stages of the deals are the same six strings, compared as strings in the
  source and as values of \<open>Stage\<close> here (\<open>Stage_str\<close> is injective).
\<close>

definition resolveStage :: "string \<Rightarrow> Deal list \<Rightarrow> Stage option" where
  "resolveStage overId dealList =
     (case find (\<lambda>stage. Stage_str (column_id stage) = overId) pipelineStages of
        Some stageColumn \<Rightarrow> Some (column_id stageColumn)
      | None \<Rightarrow>
          (case find (\<lambda>d. deal_id d = overId) dealList of
             Some overDeal \<Rightarrow> Some (deal_stage overDeal)
           | None \<Rightarrow> None))"

text \<open>
  The handler returns the store calls it made, in order, and the store after them. (The
  toast and the reset of the component's \<open>activeDeal\<close> touch no store and are left out.)
\<close>

definition handleDragEnd :: "Clock \<Rightarrow> DragEndEvent \<Rightarrow> CRMState \<Rightarrow> StoreCall list \<times> CRMState" where
  "handleDragEnd now event state =
     (case over_id event of
        None \<Rightarrow> ([], state)
      | Some overId \<Rightarrow>
          (case resolveStage overId (deals state) of
             None \<Rightarrow> ([], state)
           | Some newStage \<Rightarrow>
               if active_id event \<noteq> overId then
                 (case find (\<lambda>d. deal_id d = active_id event) (deals state) of
                    None \<Rightarrow> ([], state)
                  | Some deal \<Rightarrow>
                      if deal_stage deal \<noteq> newStage
                      then ([UpdateDealCall (deal_id deal) (stageUpdate newStage)],
                            updateDeal now (deal_id deal) (stageUpdate newStage) state)
                      else ([], state))
               else ([], state)))"

text \<open>
  The handler as the specification words it, to be compared with the one above: the target
  stage is resolved in the same way, and one update is issued exactly when a target stage
  was resolved and differs from the current stage of the dragged deal.
\<close>

definition specified_handleDragEnd ::
  "Clock \<Rightarrow> DragEndEvent \<Rightarrow> CRMState \<Rightarrow> StoreCall list \<times> CRMState" where
  "specified_handleDragEnd now event state =
     (case over_id event of
        None \<Rightarrow> ([], state)
      | Some overId \<Rightarrow>
          (case resolveStage overId (deals state) of
             None \<Rightarrow> ([], state)
           | Some target \<Rightarrow>
               (case find (\<lambda>d. deal_id d = active_id event) (deals state) of
                  None \<Rightarrow> ([], state)
                | Some deal \<Rightarrow>
                    if deal_stage deal \<noteq> target
                    then ([UpdateDealCall (deal_id deal) (stageUpdate target)],
                          updateDeal now (deal_id deal) (stageUpdate target) state)
                    else ([], state))))"

section \<open>Histories of the store\<close>

text \<open>
  The states the store reaches from the empty store under a wall clock \<open>clk\<close>, whose
  readings are numbered from the start of the history: \<open>history clk n s\<close> says that the
  store is \<open>s\<close> after some sequence of actions that read the clock \<open>n\<close> times in all. An
  action that starts after \<open>n\<close> readings sees the clock \<open>\<lambda>k. clk (n + k)\<close>; an add reads it
  twice, an update once for every record that has the id, a delete never. The histories
  are those in which the id generator returns an id the collection does not hold yet, and
  in which no update carries the keys \<open>id\<close> or \<open>createdAt\<close>.
\<close>

inductive history :: "Clock \<Rightarrow> nat \<Rightarrow> CRMState \<Rightarrow> bool" for clk :: Clock where
  start: "history clk 0 initialState"
| add_contact:
    "history clk n s \<Longrightarrow> uuid \<notin> set (map contact_id (contacts s)) \<Longrightarrow>
     history clk (n + 2) (snd (addContact uuid (\<lambda>k. clk (n + k)) input s))"
| update_contact:
    "history clk n s \<Longrightarrow> p_contact_id updates = None \<Longrightarrow> p_contact_createdAt updates = None \<Longrightarrow>
     history clk (n + length (filter (\<lambda>r. contact_id r = i) (contacts s)))
       (updateContact (\<lambda>k. clk (n + k)) i updates s)"
| delete_contact:
    "history clk n s \<Longrightarrow> history clk n (deleteContact i s)"
| add_lead:
    "history clk n s \<Longrightarrow> uuid \<notin> set (map lead_id (leads s)) \<Longrightarrow>
     history clk (n + 2) (snd (addLead uuid (\<lambda>k. clk (n + k)) linput s))"
| update_lead:
    "history clk n s \<Longrightarrow> p_lead_id lupdates = None \<Longrightarrow> p_lead_createdAt lupdates = None \<Longrightarrow>
     history clk (n + length (filter (\<lambda>r. lead_id r = i) (leads s)))
       (updateLead (\<lambda>k. clk (n + k)) i lupdates s)"
| delete_lead:
    "history clk n s \<Longrightarrow> history clk n (deleteLead i s)"
| add_deal:
    "history clk n s \<Longrightarrow> uuid \<notin> set (map deal_id (deals s)) \<Longrightarrow>
     history clk (n + 2) (snd (addDeal uuid (\<lambda>k. clk (n + k)) dinput s))"
| update_deal:
    "history clk n s \<Longrightarrow> p_deal_id dupdates = None \<Longrightarrow> p_deal_createdAt dupdates = None \<Longrightarrow>
     history clk (n + length (filter (\<lambda>r. deal_id r = i) (deals s)))
       (updateDeal (\<lambda>k. clk (n + k)) i dupdates s)"
| delete_deal:
    "history clk n s \<Longrightarrow> history clk n (deleteDeal i s)"
| add_task:
    "history clk n s \<Longrightarrow> uuid \<notin> set (map task_id (tasks s)) \<Longrightarrow>
     history clk (n + 2) (snd (addTask uuid (\<lambda>k. clk (n + k)) tinput s))"
| update_task:
    "history clk n s \<Longrightarrow> p_task_id tupdates = None \<Longrightarrow> p_task_createdAt tupdates = None \<Longrightarrow>
     history clk (n + length (filter (\<lambda>r. task_id r = i) (tasks s)))
       (updateTask (\<lambda>k. clk (n + k)) i tupdates s)"
| delete_task:
    "history clk n s \<Longrightarrow> history clk n (deleteTask i s)"

text \<open>A clock that never goes backwards.\<close>

definition monotone_clock :: "Clock \<Rightarrow> bool" where
  "monotone_clock clk \<longleftrightarrow> (\<forall>j k. j \<le> k \<longrightarrow> clk j \<le> clk k)"

text \<open>
  What a collection satisfies along a history: its ids are pairwise distinct, and every
  record was created no later than it was last written and no later than any reading the
  clock has still to give.
\<close>

definition collection_ok ::
  "Clock \<Rightarrow> nat \<Rightarrow> ('r \<Rightarrow> string) \<Rightarrow> ('r \<Rightarrow> Date) \<Rightarrow> ('r \<Rightarrow> Date) \<Rightarrow> 'r list \<Rightarrow> bool" where
  "collection_ok clk n key created updated xs \<longleftrightarrow>
     distinct (map key xs) \<and>
     (\<forall>r\<in>set xs. created r \<le> updated r \<and> (\<forall>m\<ge>n. created r \<le> clk m))"

definition store_ok :: "Clock \<Rightarrow> nat \<Rightarrow> CRMState \<Rightarrow> bool" where
  "store_ok clk n s \<longleftrightarrow>
     collection_ok clk n contact_id contact_createdAt contact_updatedAt (contacts s) \<and>
     collection_ok clk n lead_id lead_createdAt lead_updatedAt (leads s) \<and>
     collection_ok clk n deal_id deal_createdAt deal_updatedAt (deals s) \<and>
     collection_ok clk n task_id task_createdAt task_updatedAt (tasks s)"

section \<open>Example inputs\<close>

text \<open>Concrete inputs on which the operations are evaluated below.\<close>

definition uuidA :: string where "uuidA = ''3b241101-e2bb-4255-8caf-4136c566a962''"
definition uuidB :: string where "uuidB = ''9c5b94b1-35ad-49bb-b118-8e8fc24abf80''"
definition uuidC :: string where "uuidC = ''1b9d6bcd-bbfd-4b2d-9b5d-ab8dfbbd4bed''"
definition uuidD :: string where "uuidD = ''f47ac10b-58cc-4372-a567-0e02b2c3d479''"
definition uuidE :: string where "uuidE = ''6ec0bd7f-11c0-43da-975e-2a8ad9ebae0b''"

text \<open>A clock that shows the same millisecond at every reading, and one that advances by one
  millisecond between two readings.\<close>

definition frozenClock :: "Date \<Rightarrow> Clock" where
  "frozenClock t n = t"

definition tickingClock :: "Date \<Rightarrow> Clock" where
  "tickingClock t n = t + int n"

definition exampleContact :: ContactInput where
  "exampleContact = \<lparr>
     in_contact_name = ''Ada Lovelace'', in_contact_email = ''ada@example.com'',
     in_contact_phone = ''555-0100'', in_contact_company = ''Analytical Engines'',
     in_contact_position = ''Engineer'', in_contact_tags = [], in_contact_notes = []\<rparr>"

definition exampleLead :: LeadInput where
  "exampleLead = \<lparr>
     in_lead_name = ''Grace Hopper'', in_lead_email = ''grace@example.com'',
     in_lead_phone = ''555-0101'', in_lead_company = ''Compilers Inc'', in_lead_value = 1000,
     in_lead_status = New, in_lead_assignedTo = ''John Doe'', in_lead_source = ''Website'',
     in_lead_notes = []\<rparr>"

definition exampleDeal :: DealInput where
  "exampleDeal = \<lparr>
     in_deal_title = ''Licence renewal'', in_deal_value = 500, in_deal_stage = Prospecting,
     in_deal_contactId = uuidA, in_deal_assignedTo = ''John Doe'',
     in_deal_closeDate = 1700000000000, in_deal_probability = 50, in_deal_notes = []\<rparr>"

definition exampleTask :: TaskInput where
  "exampleTask = \<lparr>
     in_task_title = ''Call back'', in_task_description = ''Discuss the Offer'',
     in_task_dueDate = 1700000000000, in_task_priority = Medium, in_task_status = Pending,
     in_task_assignedTo = ''John Doe'', in_task_relatedTo = None\<rparr>"

text \<open>The empty object \<^verbatim>\<open>{}\<close> as an update, and updates of a single key.\<close>

definition noContactUpdates :: ContactPartial where
  "noContactUpdates = \<lparr>
     p_contact_id = None, p_contact_name = None, p_contact_email = None,
     p_contact_phone = None, p_contact_company = None, p_contact_position = None,
     p_contact_tags = None, p_contact_createdAt = None, p_contact_updatedAt = None,
     p_contact_notes = None\<rparr>"

definition noLeadUpdates :: LeadPartial where
  "noLeadUpdates = \<lparr>
     p_lead_id = None, p_lead_name = None, p_lead_email = None, p_lead_phone = None,
     p_lead_company = None, p_lead_value = None, p_lead_status = None,
     p_lead_assignedTo = None, p_lead_source = None, p_lead_createdAt = None,
     p_lead_updatedAt = None, p_lead_notes = None\<rparr>"

definition noTaskUpdates :: TaskPartial where
  "noTaskUpdates = \<lparr>
     p_task_id = None, p_task_title = None, p_task_description = None, p_task_dueDate = None,
     p_task_priority = None, p_task_status = None, p_task_assignedTo = None,
     p_task_relatedTo = None, p_task_createdAt = None, p_task_updatedAt = None\<rparr>"

definition renameContact :: "string \<Rightarrow> ContactPartial" where
  "renameContact n = noContactUpdates\<lparr>p_contact_name := Some n\<rparr>"

definition leadStatusUpdate :: "LeadStatus \<Rightarrow> LeadPartial" where
  "leadStatusUpdate st = noLeadUpdates\<lparr>p_lead_status := Some st\<rparr>"

definition taskStatusUpdate :: "TaskStatus \<Rightarrow> TaskPartial" where
  "taskStatusUpdate st = noTaskUpdates\<lparr>p_task_status := Some st\<rparr>"

text \<open>A store with one record in each collection, created one after the other.\<close>

definition exampleStore :: CRMState where
  "exampleStore =
     snd (addTask uuidD (tickingClock 1006) exampleTask
       (snd (addDeal uuidC (tickingClock 1004) exampleDeal
         (snd (addLead uuidB (tickingClock 1002) exampleLead
           (snd (addContact uuidA (tickingClock 1000) exampleContact initialState)))))))"

text \<open>Two deals that were won, worth 500 and 1500, and a lead that converted.\<close>

definition exampleWonDeals :: "Deal list" where
  "exampleWonDeals =
     deals (snd (addDeal uuidD (tickingClock 3000)
                   (exampleDeal\<lparr>in_deal_value := 1500, in_deal_stage := ClosedWon\<rparr>)
                   (updateDeal (frozenClock 2000) uuidC (stageUpdate ClosedWon) exampleStore)))"

definition exampleConvertedLeads :: "Lead list" where
  "exampleConvertedLeads =
     leads (updateLead (frozenClock 2000) uuidB (leadStatusUpdate Converted) exampleStore)"

text \<open>A board with two deals: the example deal in Prospecting and a second one in
  Negotiation.\<close>

definition examplePipeline :: CRMState where
  "examplePipeline =
     snd (addDeal uuidD (tickingClock 3000) (exampleDeal\<lparr>in_deal_stage := Negotiation\<rparr>)
            exampleStore)"

text \<open>The example store after one more update and one delete, all under one clock that
  started at 1000 and has ticked once between any two readings.\<close>

definition exampleHistoryStore :: CRMState where
  "exampleHistoryStore =
     deleteTask uuidD
       (updateContact (tickingClock 1008) uuidA (renameContact ''Ada King'') exampleStore)"

section \<open>Properties of the array helpers\<close>

lemma length_map_clock: "length (map_clock p f now xs) = length xs"
  by (induction xs arbitrary: now) simp_all

lemma map_clock_no_match: "\<forall>x\<in>set xs. \<not> p x \<Longrightarrow> map_clock p f now xs = xs"
  by (induction xs arbitrary: now) simp_all

lemma filter_no_match: "\<forall>x\<in>set xs. key x \<noteq> i \<Longrightarrow> filter (\<lambda>x. key x \<noteq> i) xs = xs"
  by (induction xs) simp_all

text \<open>
  The element at position \<open>k\<close> after the map: untouched when it does not match, and merged
  with the clock reading number \<open>m\<close> otherwise, \<open>m\<close> the number of matching elements before it.
\<close>

lemma nth_map_clock:
  "k < length xs \<Longrightarrow>
   map_clock p f now xs ! k =
     (if p (xs ! k) then f (xs ! k) (now (length (filter p (take k xs)))) else xs ! k)"
proof (induction xs arbitrary: now k)
  case Nil
  then show ?case by simp
next
  case (Cons x xs)
  show ?case
  proof (cases k)
    case 0
    then show ?thesis by simp
  next
    case (Suc j)
    with Cons.prems have j: "j < length xs" by simp
    show ?thesis
      using Cons.IH [OF j, of now] Cons.IH [OF j, of "\<lambda>n. now (Suc n)"] Suc
      by simp
  qed
qed


section \<open>The entity store: frame, no-op and order properties\<close>

lemmas store_defs =
  addContact_def updateContact_def deleteContact_def
  addLead_def updateLead_def deleteLead_def
  addDeal_def updateDeal_def deleteDeal_def
  addTask_def updateTask_def deleteTask_def

lemmas example_defs =
  exampleStore_def initialState_def exampleContact_def exampleLead_def exampleDeal_def
  exampleTask_def uuidA_def uuidB_def uuidC_def uuidD_def uuidE_def tickingClock_def
  frozenClock_def noContactUpdates_def noLeadUpdates_def noTaskUpdates_def renameContact_def
  leadStatusUpdate_def taskStatusUpdate_def stageUpdate_def

text \<open>
  Claim C10. Every add, update and delete action of one collection leaves the other three
  collections of the store exactly as they were. In particular, deleting a contact changes
  no deal and no task.
\<close>

theorem C10_other_collections_unchanged:
  "leads (snd (addContact uuid now contact_in s)) = leads s \<and>
   deals (snd (addContact uuid now contact_in s)) = deals s \<and>
   tasks (snd (addContact uuid now contact_in s)) = tasks s \<and>
   leads (updateContact now i cu s) = leads s \<and>
   deals (updateContact now i cu s) = deals s \<and>
   tasks (updateContact now i cu s) = tasks s \<and>
   leads (deleteContact i s) = leads s \<and>
   deals (deleteContact i s) = deals s \<and>
   tasks (deleteContact i s) = tasks s \<and>
   contacts (snd (addLead uuid now lead_in s)) = contacts s \<and>
   deals (snd (addLead uuid now lead_in s)) = deals s \<and>
   tasks (snd (addLead uuid now lead_in s)) = tasks s \<and>
   contacts (updateLead now i lu s) = contacts s \<and>
   deals (updateLead now i lu s) = deals s \<and>
   tasks (updateLead now i lu s) = tasks s \<and>
   contacts (deleteLead i s) = contacts s \<and>
   deals (deleteLead i s) = deals s \<and>
   tasks (deleteLead i s) = tasks s \<and>
   contacts (snd (addDeal uuid now deal_in s)) = contacts s \<and>
   leads (snd (addDeal uuid now deal_in s)) = leads s \<and>
   tasks (snd (addDeal uuid now deal_in s)) = tasks s \<and>
   contacts (updateDeal now i du s) = contacts s \<and>
   leads (updateDeal now i du s) = leads s \<and>
   tasks (updateDeal now i du s) = tasks s \<and>
   contacts (deleteDeal i s) = contacts s \<and>
   leads (deleteDeal i s) = leads s \<and>
   tasks (deleteDeal i s) = tasks s \<and>
   contacts (snd (addTask uuid now task_in s)) = contacts s \<and>
   leads (snd (addTask uuid now task_in s)) = leads s \<and>
   deals (snd (addTask uuid now task_in s)) = deals s \<and>
   contacts (updateTask now i tu s) = contacts s \<and>
   leads (updateTask now i tu s) = leads s \<and>
   deals (updateTask now i tu s) = deals s \<and>
   contacts (deleteTask i s) = contacts s \<and>
   leads (deleteTask i s) = leads s \<and>
   deals (deleteTask i s) = deals s"
  by (simp add: store_defs Let_def)

text \<open>
  Claim C3. An update or a delete whose id no record of the collection has leaves the
  collection as it was, and with it the whole store. No action has a failing branch: each
  is a total function of the store.
\<close>

theorem C3_absent_id_is_noop:
  "(i \<notin> set (map contact_id (contacts s)) \<longrightarrow>
      updateContact now i cu s = s \<and> deleteContact i s = s) \<and>
   (i \<notin> set (map lead_id (leads s)) \<longrightarrow>
      updateLead now i lu s = s \<and> deleteLead i s = s) \<and>
   (i \<notin> set (map deal_id (deals s)) \<longrightarrow>
      updateDeal now i du s = s \<and> deleteDeal i s = s) \<and>
   (i \<notin> set (map task_id (tasks s)) \<longrightarrow>
      updateTask now i tu s = s \<and> deleteTask i s = s)"
proof -
  have upd: "map_clock (\<lambda>r. key r = i) f now xs = xs" if "i \<notin> set (map key xs)"
    for key :: "'r \<Rightarrow> string" and f xs
    using that by (intro map_clock_no_match) auto
  have del: "filter (\<lambda>r. key r \<noteq> i) xs = xs" if "i \<notin> set (map key xs)"
    for key :: "'r \<Rightarrow> string" and xs
    using that by (intro filter_no_match) auto
  show ?thesis
    by (simp add: store_defs upd del)
qed

theorem C3_absent_id_is_noop_witness:
  "uuidE \<notin> set (map contact_id (contacts exampleStore)) \<and>
   updateContact (frozenClock 2000) uuidE (renameContact ''Ada King'') exampleStore = exampleStore \<and>
   deleteContact uuidE exampleStore = exampleStore \<and>
   uuidE \<notin> set (map lead_id (leads exampleStore)) \<and>
   updateLead (frozenClock 2000) uuidE (leadStatusUpdate Converted) exampleStore = exampleStore \<and>
   deleteLead uuidE exampleStore = exampleStore \<and>
   uuidE \<notin> set (map deal_id (deals exampleStore)) \<and>
   updateDeal (frozenClock 2000) uuidE (stageUpdate ClosedWon) exampleStore = exampleStore \<and>
   deleteDeal uuidE exampleStore = exampleStore \<and>
   uuidE \<notin> set (map task_id (tasks exampleStore)) \<and>
   updateTask (frozenClock 2000) uuidE (taskStatusUpdate Completed) exampleStore = exampleStore \<and>
   deleteTask uuidE exampleStore = exampleStore"
proof -
  have absent:
    "uuidE \<notin> set (map contact_id (contacts exampleStore))"
    "uuidE \<notin> set (map lead_id (leads exampleStore))"
    "uuidE \<notin> set (map deal_id (deals exampleStore))"
    "uuidE \<notin> set (map task_id (tasks exampleStore))"
    by (simp_all add: example_defs store_defs)
  show ?thesis
    using absent
      C3_absent_id_is_noop [of uuidE exampleStore "frozenClock 2000"
        "renameContact ''Ada King''" "leadStatusUpdate Converted" "stageUpdate ClosedWon"
        "taskStatusUpdate Completed"]
    by blast
qed

text \<open>
  Claim C9. An update keeps the length of the collection and the place of every record,
  whether or not a record has the id: the record at position \<open>k\<close> afterwards is the record
  that was at position \<open>k\<close>, untouched when its id differs and merged with the updates in
  place when it has the id. Nothing is inserted, removed or moved.
\<close>

theorem C9_update_keeps_length_and_order:
  "length (contacts (updateContact now i cu s)) = length (contacts s) \<and>
   (\<forall>k < length (contacts s).
      contacts (updateContact now i cu s) ! k =
        (if contact_id (contacts s ! k) = i
         then mergeContact cu (contacts s ! k)
                (now (length (filter (\<lambda>r. contact_id r = i) (take k (contacts s)))))
         else contacts s ! k)) \<and>
   length (leads (updateLead now i lu s)) = length (leads s) \<and>
   (\<forall>k < length (leads s).
      leads (updateLead now i lu s) ! k =
        (if lead_id (leads s ! k) = i
         then mergeLead lu (leads s ! k)
                (now (length (filter (\<lambda>r. lead_id r = i) (take k (leads s)))))
         else leads s ! k)) \<and>
   length (deals (updateDeal now i du s)) = length (deals s) \<and>
   (\<forall>k < length (deals s).
      deals (updateDeal now i du s) ! k =
        (if deal_id (deals s ! k) = i
         then mergeDeal du (deals s ! k)
                (now (length (filter (\<lambda>r. deal_id r = i) (take k (deals s)))))
         else deals s ! k)) \<and>
   length (tasks (updateTask now i tu s)) = length (tasks s) \<and>
   (\<forall>k < length (tasks s).
      tasks (updateTask now i tu s) ! k =
        (if task_id (tasks s ! k) = i
         then mergeTask tu (tasks s ! k)
                (now (length (filter (\<lambda>r. task_id r = i) (take k (tasks s)))))
         else tasks s ! k))"
  by (simp add: store_defs length_map_clock nth_map_clock)

theorem C9_update_keeps_length_and_order_witness:
  "0 < length (contacts exampleStore) \<and>
   length (contacts (updateContact (frozenClock 2000) uuidA (renameContact ''Ada King'') exampleStore)) = 1 \<and>
   contacts (updateContact (frozenClock 2000) uuidA (renameContact ''Ada King'') exampleStore) ! 0 =
     mergeContact (renameContact ''Ada King'') (contacts exampleStore ! 0) 2000 \<and>
   0 < length (leads exampleStore) \<and>
   length (leads (updateLead (frozenClock 2000) uuidB (leadStatusUpdate Converted) exampleStore)) = 1 \<and>
   leads (updateLead (frozenClock 2000) uuidB (leadStatusUpdate Converted) exampleStore) ! 0 =
     mergeLead (leadStatusUpdate Converted) (leads exampleStore ! 0) 2000 \<and>
   0 < length (deals exampleStore) \<and>
   length (deals (updateDeal (frozenClock 2000) uuidC (stageUpdate ClosedWon) exampleStore)) = 1 \<and>
   deals (updateDeal (frozenClock 2000) uuidC (stageUpdate ClosedWon) exampleStore) ! 0 =
     mergeDeal (stageUpdate ClosedWon) (deals exampleStore ! 0) 2000 \<and>
   0 < length (tasks exampleStore) \<and>
   length (tasks (updateTask (frozenClock 2000) uuidD (taskStatusUpdate Completed) exampleStore)) = 1 \<and>
   tasks (updateTask (frozenClock 2000) uuidD (taskStatusUpdate Completed) exampleStore) ! 0 =
     mergeTask (taskStatusUpdate Completed) (tasks exampleStore ! 0) 2000"
proof -
  have len:
    "length (contacts exampleStore) = 1" "length (leads exampleStore) = 1"
    "length (deals exampleStore) = 1" "length (tasks exampleStore) = 1"
    by (simp_all add: example_defs store_defs)
  have ids:
    "contact_id (contacts exampleStore ! 0) = uuidA" "lead_id (leads exampleStore ! 0) = uuidB"
    "deal_id (deals exampleStore ! 0) = uuidC" "task_id (tasks exampleStore ! 0) = uuidD"
    by (simp_all add: example_defs store_defs)
  show ?thesis
    using len ids
      C9_update_keeps_length_and_order [where now = "frozenClock 2000" and s = exampleStore
        and i = uuidA and cu = "renameContact ''Ada King''"]
      C9_update_keeps_length_and_order [where now = "frozenClock 2000" and s = exampleStore
        and i = uuidB and lu = "leadStatusUpdate Converted"]
      C9_update_keeps_length_and_order [where now = "frozenClock 2000" and s = exampleStore
        and i = uuidC and du = "stageUpdate ClosedWon"]
      C9_update_keeps_length_and_order [where now = "frozenClock 2000" and s = exampleStore
        and i = uuidD and tu = "taskStatusUpdate Completed"]
    by (simp add: frozenClock_def)
qed

section \<open>Session store: login\<close>

text \<open>
  Claim C7. For every email and every password, login resolves to true and leaves the
  store authenticated with a constructed user whose role is chosen by exact comparison of
  the email with the hardcoded addresses: admin for the admin address, manager for the
  manager address, salesperson for every other string. Neither the result nor the user
  depends on the password.
\<close>

theorem C7_login_ignores_password:
  "fst (login email password state) = True \<and>
   isAuthenticated (snd (login email password state)) = True \<and>
   user (snd (login email password state)) =
     Some \<lparr>user_id = ''1'',
           user_name = (if email = ''admin@crm.com'' then ''Admin User'' else ''John Doe''),
           user_email = email,
           user_role = (if email = ''admin@crm.com'' then Admin
                        else if email = ''manager@crm.com'' then Manager else Salesperson),
           user_avatar = None\<rparr> \<and>
   login email password' state = login email password state"
  by (simp add: login_def Let_def)

theorem C7_login_ignores_password_witness:
  "map_option user_role
     (user (snd (login ''admin@crm.com'' ''secret'' \<lparr>user = None, isAuthenticated = False\<rparr>))) =
     Some Admin \<and>
   map_option user_role
     (user (snd (login ''manager@crm.com'' [] \<lparr>user = None, isAuthenticated = False\<rparr>))) =
     Some Manager \<and>
   map_option user_role
     (user (snd (login ''Admin@crm.com'' ''secret'' \<lparr>user = None, isAuthenticated = False\<rparr>))) =
     Some Salesperson \<and>
   login ''admin@crm.com'' ''wrong'' \<lparr>user = None, isAuthenticated = False\<rparr> =
     login ''admin@crm.com'' ''secret'' \<lparr>user = None, isAuthenticated = False\<rparr>"
  using
    C7_login_ignores_password [of "''admin@crm.com''" "''secret''"
      "\<lparr>user = None, isAuthenticated = False\<rparr>" "''wrong''"]
    C7_login_ignores_password [of "''manager@crm.com''" "[]"
      "\<lparr>user = None, isAuthenticated = False\<rparr>"]
    C7_login_ignores_password [of "''Admin@crm.com''" "''secret''"
      "\<lparr>user = None, isAuthenticated = False\<rparr>"]
  by simp

section \<open>Derived views\<close>

subsection \<open>Ratios\<close>

lemma foldl_add_sum_list:
  "foldl (\<lambda>sum x. sum + val x) a xs = a + sum_list (map val xs)" for a :: number
  by (induction xs arbitrary: a) (simp_all add: add.assoc)

text \<open>
  Claim C6. The conversion rate of a list of leads is the number of converted leads divided
  by the number of leads, times 100, and 0 for the empty list; the average size of the won
  deals is the sum of their values divided by their number, and 0 when no deal is won.
  Both are always a number (\<open>Some\<close>): the guard keeps the division away from a zero divisor.
\<close>

theorem C6_ratios_guard_zero:
  "Dashboard_conversionRate leadList =
     Some (if leadList = [] then 0
           else of_nat (length (filter (\<lambda>lead. lead_status lead = Converted) leadList)) /
                of_nat (length leadList) * 100) \<and>
   Analytics_conversionRate leadList = Dashboard_conversionRate leadList \<and>
   avgDealSize dealList =
     Some (if filter (\<lambda>d. deal_stage d = ClosedWon) dealList = [] then 0
           else sum_list (map deal_value (filter (\<lambda>d. deal_stage d = ClosedWon) dealList)) /
                of_nat (length (filter (\<lambda>d. deal_stage d = ClosedWon) dealList)))"
  by (simp add: Dashboard_conversionRate_def Analytics_conversionRate_def avgDealSize_def
      totalRevenue_def js_divide_def Let_def foldl_add_sum_list)

theorem C6_ratios_guard_zero_witness:
  "Dashboard_conversionRate [] = Some 0 \<and>
   Analytics_conversionRate [] = Some 0 \<and>
   avgDealSize [] = Some 0 \<and>
   avgDealSize (deals exampleStore) = Some 0 \<and>
   Dashboard_conversionRate (leads exampleStore) = Some 0 \<and>
   Dashboard_conversionRate exampleConvertedLeads = Some 100 \<and>
   Analytics_conversionRate exampleConvertedLeads = Some 100 \<and>
   avgDealSize exampleWonDeals = Some 1000"
proof -
  have l1:
    "leads exampleStore \<noteq> []"
    "filter (\<lambda>lead. lead_status lead = Converted) (leads exampleStore) = []"
    by (simp_all add: example_defs store_defs)
  have l2:
    "exampleConvertedLeads \<noteq> []"
    "length exampleConvertedLeads = 1"
    "length (filter (\<lambda>lead. lead_status lead = Converted) exampleConvertedLeads) = 1"
    by (simp_all add: exampleConvertedLeads_def example_defs store_defs mergeLead_def)
  have d1: "filter (\<lambda>d. deal_stage d = ClosedWon) (deals exampleStore) = []"
    by (simp add: example_defs store_defs)
  have d2:
    "filter (\<lambda>d. deal_stage d = ClosedWon) exampleWonDeals = exampleWonDeals"
    "exampleWonDeals \<noteq> []"
    "length exampleWonDeals = 2"
    "sum_list (map deal_value exampleWonDeals) = 2000"
    by (simp_all add: exampleWonDeals_def example_defs store_defs mergeDeal_def)
  have empty: "Dashboard_conversionRate [] = Some 0 \<and> Analytics_conversionRate [] = Some 0 \<and>
      avgDealSize [] = Some 0"
    using C6_ratios_guard_zero [of "[]" "[]"] by simp
  have fresh: "avgDealSize (deals exampleStore) = Some 0 \<and>
      Dashboard_conversionRate (leads exampleStore) = Some 0"
    using C6_ratios_guard_zero [of "leads exampleStore" "deals exampleStore"] l1 d1 by simp
  have later: "Dashboard_conversionRate exampleConvertedLeads = Some 100 \<and>
      Analytics_conversionRate exampleConvertedLeads = Some 100 \<and>
      avgDealSize exampleWonDeals = Some 1000"
    using C6_ratios_guard_zero [of exampleConvertedLeads exampleWonDeals] l2 d2 by simp
  show ?thesis
    using empty fresh later by simp
qed

subsection \<open>Filtering\<close>

lemma startsAt_prefix: "startsAt s t = prefix t s"
  by (induction s t rule: startsAt.induct) auto

text \<open>\<open>s.includes(t)\<close> holds exactly when \<open>t\<close> is a contiguous part of \<open>s\<close>:
  \<open>sublist t s\<close> is \<open>\<exists>ps ss. s = ps @ t @ ss\<close>.\<close>

lemma string_includes_sublist: "string_includes s t = sublist t s"
  by (induction s) (simp_all add: startsAt_prefix sublist_Cons_right)

text \<open>
  Claim C8. A record is in the filtered view exactly when it is in the list, the lowercased
  search term is a contiguous part of at least one of the lowercased searched fields of its
  entity type (title and description of a task; name, email and company of a lead or a
  contact), and it satisfies every active exact-match filter; a filter is inactive when it
  holds the string all. The deals of a pipeline column are those whose stage is the column's.
\<close>

theorem C8_filtered_views:
  "(task \<in> set (filteredTasks taskList searchTerm statusFilter priorityFilter) \<longleftrightarrow>
      task \<in> set taskList \<and>
      (sublist (toLowerCase searchTerm) (toLowerCase (task_title task)) \<or>
       sublist (toLowerCase searchTerm) (toLowerCase (task_description task))) \<and>
      (statusFilter \<noteq> ''all'' \<longrightarrow> TaskStatus_str (task_status task) = statusFilter) \<and>
      (priorityFilter \<noteq> ''all'' \<longrightarrow> Priority_str (task_priority task) = priorityFilter)) \<and>
   (lead \<in> set (filteredLeads leadList searchTerm statusFilter) \<longleftrightarrow>
      lead \<in> set leadList \<and>
      (sublist (toLowerCase searchTerm) (toLowerCase (lead_name lead)) \<or>
       sublist (toLowerCase searchTerm) (toLowerCase (lead_email lead)) \<or>
       sublist (toLowerCase searchTerm) (toLowerCase (lead_company lead))) \<and>
      (statusFilter \<noteq> ''all'' \<longrightarrow> LeadStatus_str (lead_status lead) = statusFilter)) \<and>
   (contact \<in> set (filteredContacts contactList searchTerm) \<longleftrightarrow>
      contact \<in> set contactList \<and>
      (sublist (toLowerCase searchTerm) (toLowerCase (contact_name contact)) \<or>
       sublist (toLowerCase searchTerm) (toLowerCase (contact_email contact)) \<or>
       sublist (toLowerCase searchTerm) (toLowerCase (contact_company contact)))) \<and>
   (deal \<in> set (getDealsByStage dealList stage) \<longleftrightarrow>
      deal \<in> set dealList \<and> Stage_str (deal_stage deal) = stage)"
  by (auto simp add: filteredTasks_def filteredLeads_def filteredContacts_def
      getDealsByStage_def Let_def string_includes_sublist)

theorem C8_filtered_views_witness:
  "tasks exampleStore ! 0 \<in> set (filteredTasks (tasks exampleStore) ''OFFER'' ''pending'' ''all'') \<and>
   tasks exampleStore ! 0 \<notin> set (filteredTasks (tasks exampleStore) ''OFFER'' ''pending'' ''high'') \<and>
   tasks exampleStore ! 0 \<notin> set (filteredTasks (tasks exampleStore) ''offers'' ''all'' ''all'') \<and>
   leads exampleStore ! 0 \<in> set (filteredLeads (leads exampleStore) ''compilers'' ''new'') \<and>
   leads exampleStore ! 0 \<notin> set (filteredLeads (leads exampleStore) ''compilers'' ''lost'') \<and>
   contacts exampleStore ! 0 \<in> set (filteredContacts (contacts exampleStore) ''ADA@'') \<and>
   deals exampleStore ! 0 \<in> set (getDealsByStage (deals exampleStore) ''prospecting'') \<and>
   deals exampleStore ! 0 \<notin> set (getDealsByStage (deals exampleStore) ''closed-won'')"
proof -
  have t:
    "tasks exampleStore ! 0 \<in> set (tasks exampleStore)"
    "toLowerCase (task_title (tasks exampleStore ! 0)) = ''call back''"
    "toLowerCase (task_description (tasks exampleStore ! 0)) = ''discuss the offer''"
    "task_status (tasks exampleStore ! 0) = Pending"
    "task_priority (tasks exampleStore ! 0) = Medium"
    by (simp_all add: example_defs store_defs toLowerCase_def lowerChar_def)
  have l:
    "leads exampleStore ! 0 \<in> set (leads exampleStore)"
    "toLowerCase (lead_company (leads exampleStore ! 0)) = ''compilers inc''"
    "lead_status (leads exampleStore ! 0) = New"
    by (simp_all add: example_defs store_defs toLowerCase_def lowerChar_def)
  have c:
    "contacts exampleStore ! 0 \<in> set (contacts exampleStore)"
    "toLowerCase (contact_email (contacts exampleStore ! 0)) = ''ada@example.com''"
    by (simp_all add: example_defs store_defs toLowerCase_def lowerChar_def)
  have d:
    "deals exampleStore ! 0 \<in> set (deals exampleStore)"
    "deal_stage (deals exampleStore ! 0) = Prospecting"
    by (simp_all add: example_defs store_defs)
  have terms:
    "toLowerCase ''OFFER'' = ''offer''" "toLowerCase ''offers'' = ''offers''"
    "toLowerCase ''compilers'' = ''compilers''" "toLowerCase ''ADA@'' = ''ada@''"
    by (simp_all add: toLowerCase_def lowerChar_def)
  have sub:
    "sublist ''offer'' ''discuss the offer''"
    "\<not> sublist ''offers'' ''discuss the offer''"
    "\<not> sublist ''offers'' ''call back''"
    "sublist ''compilers'' ''compilers inc''"
    "sublist ''ada@'' ''ada@example.com''"
    by (simp_all add: string_includes_sublist [symmetric])
  show ?thesis
    using t l c d terms sub
      C8_filtered_views [of "tasks exampleStore ! 0" "tasks exampleStore" "''OFFER''"
        "''pending''" "''all''" "leads exampleStore ! 0" "leads exampleStore"
        "contacts exampleStore ! 0" "contacts exampleStore"
        "deals exampleStore ! 0" "deals exampleStore" "''prospecting''"]
      C8_filtered_views [of "tasks exampleStore ! 0" "tasks exampleStore" "''OFFER''"
        "''pending''" "''high''" _ _ _ _
        "deals exampleStore ! 0" "deals exampleStore" "''closed-won''"]
      C8_filtered_views [of "tasks exampleStore ! 0" "tasks exampleStore" "''offers''"
        "''all''" "''all''"]
      C8_filtered_views [of _ _ "''compilers''" "''new''" _
        "leads exampleStore ! 0" "leads exampleStore"]
      C8_filtered_views [of _ _ "''compilers''" "''lost''" _
        "leads exampleStore ! 0" "leads exampleStore"]
      C8_filtered_views [of _ _ "''ADA@''" _ _ _ _
        "contacts exampleStore ! 0" "contacts exampleStore"]
    by simp
qed

section \<open>The entity store: what an update does to the record\<close>

text \<open>One collection at a time: the record at a position that has the id, after the update.\<close>

lemma updateContact_fields:
  "k < length (contacts s) \<and> contact_id (contacts s ! k) = i \<longrightarrow>
      (p_contact_id cu = None \<longrightarrow> contact_id (contacts (updateContact now i cu s) ! k) = contact_id (contacts s ! k)) \<and>
      (p_contact_name cu = None \<longrightarrow> contact_name (contacts (updateContact now i cu s) ! k) = contact_name (contacts s ! k)) \<and>
      (p_contact_email cu = None \<longrightarrow> contact_email (contacts (updateContact now i cu s) ! k) = contact_email (contacts s ! k)) \<and>
      (p_contact_phone cu = None \<longrightarrow> contact_phone (contacts (updateContact now i cu s) ! k) = contact_phone (contacts s ! k)) \<and>
      (p_contact_company cu = None \<longrightarrow> contact_company (contacts (updateContact now i cu s) ! k) = contact_company (contacts s ! k)) \<and>
      (p_contact_position cu = None \<longrightarrow> contact_position (contacts (updateContact now i cu s) ! k) = contact_position (contacts s ! k)) \<and>
      (p_contact_tags cu = None \<longrightarrow> contact_tags (contacts (updateContact now i cu s) ! k) = contact_tags (contacts s ! k)) \<and>
      (p_contact_createdAt cu = None \<longrightarrow> contact_createdAt (contacts (updateContact now i cu s) ! k) = contact_createdAt (contacts s ! k)) \<and>
      (p_contact_notes cu = None \<longrightarrow> contact_notes (contacts (updateContact now i cu s) ! k) = contact_notes (contacts s ! k)) \<and>
      contact_updatedAt (contacts (updateContact now i cu s) ! k) =
        now (length (filter (\<lambda>r. contact_id r = i) (take k (contacts s))))"
  by (simp add: updateContact_def nth_map_clock mergeContact_def)

lemma updateLead_fields:
  "k < length (leads s) \<and> lead_id (leads s ! k) = i \<longrightarrow>
      (p_lead_id lu = None \<longrightarrow> lead_id (leads (updateLead now i lu s) ! k) = lead_id (leads s ! k)) \<and>
      (p_lead_name lu = None \<longrightarrow> lead_name (leads (updateLead now i lu s) ! k) = lead_name (leads s ! k)) \<and>
      (p_lead_email lu = None \<longrightarrow> lead_email (leads (updateLead now i lu s) ! k) = lead_email (leads s ! k)) \<and>
      (p_lead_phone lu = None \<longrightarrow> lead_phone (leads (updateLead now i lu s) ! k) = lead_phone (leads s ! k)) \<and>
      (p_lead_company lu = None \<longrightarrow> lead_company (leads (updateLead now i lu s) ! k) = lead_company (leads s ! k)) \<and>
      (p_lead_value lu = None \<longrightarrow> lead_value (leads (updateLead now i lu s) ! k) = lead_value (leads s ! k)) \<and>
      (p_lead_status lu = None \<longrightarrow> lead_status (leads (updateLead now i lu s) ! k) = lead_status (leads s ! k)) \<and>
      (p_lead_assignedTo lu = None \<longrightarrow> lead_assignedTo (leads (updateLead now i lu s) ! k) = lead_assignedTo (leads s ! k)) \<and>
      (p_lead_source lu = None \<longrightarrow> lead_source (leads (updateLead now i lu s) ! k) = lead_source (leads s ! k)) \<and>
      (p_lead_createdAt lu = None \<longrightarrow> lead_createdAt (leads (updateLead now i lu s) ! k) = lead_createdAt (leads s ! k)) \<and>
      (p_lead_notes lu = None \<longrightarrow> lead_notes (leads (updateLead now i lu s) ! k) = lead_notes (leads s ! k)) \<and>
      lead_updatedAt (leads (updateLead now i lu s) ! k) =
        now (length (filter (\<lambda>r. lead_id r = i) (take k (leads s))))"
  by (simp add: updateLead_def nth_map_clock mergeLead_def)

lemma updateDeal_fields:
  "k < length (deals s) \<and> deal_id (deals s ! k) = i \<longrightarrow>
      (p_deal_id du = None \<longrightarrow> deal_id (deals (updateDeal now i du s) ! k) = deal_id (deals s ! k)) \<and>
      (p_deal_title du = None \<longrightarrow> deal_title (deals (updateDeal now i du s) ! k) = deal_title (deals s ! k)) \<and>
      (p_deal_value du = None \<longrightarrow> deal_value (deals (updateDeal now i du s) ! k) = deal_value (deals s ! k)) \<and>
      (p_deal_stage du = None \<longrightarrow> deal_stage (deals (updateDeal now i du s) ! k) = deal_stage (deals s ! k)) \<and>
      (p_deal_contactId du = None \<longrightarrow> deal_contactId (deals (updateDeal now i du s) ! k) = deal_contactId (deals s ! k)) \<and>
      (p_deal_assignedTo du = None \<longrightarrow> deal_assignedTo (deals (updateDeal now i du s) ! k) = deal_assignedTo (deals s ! k)) \<and>
      (p_deal_closeDate du = None \<longrightarrow> deal_closeDate (deals (updateDeal now i du s) ! k) = deal_closeDate (deals s ! k)) \<and>
      (p_deal_probability du = None \<longrightarrow> deal_probability (deals (updateDeal now i du s) ! k) = deal_probability (deals s ! k)) \<and>
      (p_deal_createdAt du = None \<longrightarrow> deal_createdAt (deals (updateDeal now i du s) ! k) = deal_createdAt (deals s ! k)) \<and>
      (p_deal_notes du = None \<longrightarrow> deal_notes (deals (updateDeal now i du s) ! k) = deal_notes (deals s ! k)) \<and>
      deal_updatedAt (deals (updateDeal now i du s) ! k) =
        now (length (filter (\<lambda>r. deal_id r = i) (take k (deals s))))"
  by (simp add: updateDeal_def nth_map_clock mergeDeal_def)

lemma updateTask_fields:
  "k < length (tasks s) \<and> task_id (tasks s ! k) = i \<longrightarrow>
      (p_task_id tu = None \<longrightarrow> task_id (tasks (updateTask now i tu s) ! k) = task_id (tasks s ! k)) \<and>
      (p_task_title tu = None \<longrightarrow> task_title (tasks (updateTask now i tu s) ! k) = task_title (tasks s ! k)) \<and>
      (p_task_description tu = None \<longrightarrow> task_description (tasks (updateTask now i tu s) ! k) = task_description (tasks s ! k)) \<and>
      (p_task_dueDate tu = None \<longrightarrow> task_dueDate (tasks (updateTask now i tu s) ! k) = task_dueDate (tasks s ! k)) \<and>
      (p_task_priority tu = None \<longrightarrow> task_priority (tasks (updateTask now i tu s) ! k) = task_priority (tasks s ! k)) \<and>
      (p_task_status tu = None \<longrightarrow> task_status (tasks (updateTask now i tu s) ! k) = task_status (tasks s ! k)) \<and>
      (p_task_assignedTo tu = None \<longrightarrow> task_assignedTo (tasks (updateTask now i tu s) ! k) = task_assignedTo (tasks s ! k)) \<and>
      (p_task_relatedTo tu = None \<longrightarrow> task_relatedTo (tasks (updateTask now i tu s) ! k) = task_relatedTo (tasks s ! k)) \<and>
      (p_task_createdAt tu = None \<longrightarrow> task_createdAt (tasks (updateTask now i tu s) ! k) = task_createdAt (tasks s ! k)) \<and>
      task_updatedAt (tasks (updateTask now i tu s) ! k) =
        now (length (filter (\<lambda>r. task_id r = i) (take k (tasks s))))"
  by (simp add: updateTask_def nth_map_clock mergeTask_def)

text \<open>
  Claim C2, as the code has it. When the record at position \<open>k\<close> has the id, every field
  other than \<open>updatedAt\<close> whose key is absent from the updates keeps its value; this
  includes \<open>createdAt\<close> (and \<open>id\<close>) when the updates do not carry that key. \<open>updatedAt\<close>
  becomes the clock reading taken for that record, whatever the updates say: it is
  strictly later than before exactly when that reading is.
\<close>

theorem C2_update_keeps_absent_fields:
  "(k < length (contacts s) \<and> contact_id (contacts s ! k) = i \<longrightarrow>
      (p_contact_id cu = None \<longrightarrow> contact_id (contacts (updateContact now i cu s) ! k) = contact_id (contacts s ! k)) \<and>
      (p_contact_name cu = None \<longrightarrow> contact_name (contacts (updateContact now i cu s) ! k) = contact_name (contacts s ! k)) \<and>
      (p_contact_email cu = None \<longrightarrow> contact_email (contacts (updateContact now i cu s) ! k) = contact_email (contacts s ! k)) \<and>
      (p_contact_phone cu = None \<longrightarrow> contact_phone (contacts (updateContact now i cu s) ! k) = contact_phone (contacts s ! k)) \<and>
      (p_contact_company cu = None \<longrightarrow> contact_company (contacts (updateContact now i cu s) ! k) = contact_company (contacts s ! k)) \<and>
      (p_contact_position cu = None \<longrightarrow> contact_position (contacts (updateContact now i cu s) ! k) = contact_position (contacts s ! k)) \<and>
      (p_contact_tags cu = None \<longrightarrow> contact_tags (contacts (updateContact now i cu s) ! k) = contact_tags (contacts s ! k)) \<and>
      (p_contact_createdAt cu = None \<longrightarrow> contact_createdAt (contacts (updateContact now i cu s) ! k) = contact_createdAt (contacts s ! k)) \<and>
      (p_contact_notes cu = None \<longrightarrow> contact_notes (contacts (updateContact now i cu s) ! k) = contact_notes (contacts s ! k)) \<and>
      contact_updatedAt (contacts (updateContact now i cu s) ! k) =
        now (length (filter (\<lambda>r. contact_id r = i) (take k (contacts s))))) \<and>
   (k < length (leads s) \<and> lead_id (leads s ! k) = i \<longrightarrow>
      (p_lead_id lu = None \<longrightarrow> lead_id (leads (updateLead now i lu s) ! k) = lead_id (leads s ! k)) \<and>
      (p_lead_name lu = None \<longrightarrow> lead_name (leads (updateLead now i lu s) ! k) = lead_name (leads s ! k)) \<and>
      (p_lead_email lu = None \<longrightarrow> lead_email (leads (updateLead now i lu s) ! k) = lead_email (leads s ! k)) \<and>
      (p_lead_phone lu = None \<longrightarrow> lead_phone (leads (updateLead now i lu s) ! k) = lead_phone (leads s ! k)) \<and>
      (p_lead_company lu = None \<longrightarrow> lead_company (leads (updateLead now i lu s) ! k) = lead_company (leads s ! k)) \<and>
      (p_lead_value lu = None \<longrightarrow> lead_value (leads (updateLead now i lu s) ! k) = lead_value (leads s ! k)) \<and>
      (p_lead_status lu = None \<longrightarrow> lead_status (leads (updateLead now i lu s) ! k) = lead_status (leads s ! k)) \<and>
      (p_lead_assignedTo lu = None \<longrightarrow> lead_assignedTo (leads (updateLead now i lu s) ! k) = lead_assignedTo (leads s ! k)) \<and>
      (p_lead_source lu = None \<longrightarrow> lead_source (leads (updateLead now i lu s) ! k) = lead_source (leads s ! k)) \<and>
      (p_lead_createdAt lu = None \<longrightarrow> lead_createdAt (leads (updateLead now i lu s) ! k) = lead_createdAt (leads s ! k)) \<and>
      (p_lead_notes lu = None \<longrightarrow> lead_notes (leads (updateLead now i lu s) ! k) = lead_notes (leads s ! k)) \<and>
      lead_updatedAt (leads (updateLead now i lu s) ! k) =
        now (length (filter (\<lambda>r. lead_id r = i) (take k (leads s))))) \<and>
   (k < length (deals s) \<and> deal_id (deals s ! k) = i \<longrightarrow>
      (p_deal_id du = None \<longrightarrow> deal_id (deals (updateDeal now i du s) ! k) = deal_id (deals s ! k)) \<and>
      (p_deal_title du = None \<longrightarrow> deal_title (deals (updateDeal now i du s) ! k) = deal_title (deals s ! k)) \<and>
      (p_deal_value du = None \<longrightarrow> deal_value (deals (updateDeal now i du s) ! k) = deal_value (deals s ! k)) \<and>
      (p_deal_stage du = None \<longrightarrow> deal_stage (deals (updateDeal now i du s) ! k) = deal_stage (deals s ! k)) \<and>
      (p_deal_contactId du = None \<longrightarrow> deal_contactId (deals (updateDeal now i du s) ! k) = deal_contactId (deals s ! k)) \<and>
      (p_deal_assignedTo du = None \<longrightarrow> deal_assignedTo (deals (updateDeal now i du s) ! k) = deal_assignedTo (deals s ! k)) \<and>
      (p_deal_closeDate du = None \<longrightarrow> deal_closeDate (deals (updateDeal now i du s) ! k) = deal_closeDate (deals s ! k)) \<and>
      (p_deal_probability du = None \<longrightarrow> deal_probability (deals (updateDeal now i du s) ! k) = deal_probability (deals s ! k)) \<and>
      (p_deal_createdAt du = None \<longrightarrow> deal_createdAt (deals (updateDeal now i du s) ! k) = deal_createdAt (deals s ! k)) \<and>
      (p_deal_notes du = None \<longrightarrow> deal_notes (deals (updateDeal now i du s) ! k) = deal_notes (deals s ! k)) \<and>
      deal_updatedAt (deals (updateDeal now i du s) ! k) =
        now (length (filter (\<lambda>r. deal_id r = i) (take k (deals s))))) \<and>
   (k < length (tasks s) \<and> task_id (tasks s ! k) = i \<longrightarrow>
      (p_task_id tu = None \<longrightarrow> task_id (tasks (updateTask now i tu s) ! k) = task_id (tasks s ! k)) \<and>
      (p_task_title tu = None \<longrightarrow> task_title (tasks (updateTask now i tu s) ! k) = task_title (tasks s ! k)) \<and>
      (p_task_description tu = None \<longrightarrow> task_description (tasks (updateTask now i tu s) ! k) = task_description (tasks s ! k)) \<and>
      (p_task_dueDate tu = None \<longrightarrow> task_dueDate (tasks (updateTask now i tu s) ! k) = task_dueDate (tasks s ! k)) \<and>
      (p_task_priority tu = None \<longrightarrow> task_priority (tasks (updateTask now i tu s) ! k) = task_priority (tasks s ! k)) \<and>
      (p_task_status tu = None \<longrightarrow> task_status (tasks (updateTask now i tu s) ! k) = task_status (tasks s ! k)) \<and>
      (p_task_assignedTo tu = None \<longrightarrow> task_assignedTo (tasks (updateTask now i tu s) ! k) = task_assignedTo (tasks s ! k)) \<and>
      (p_task_relatedTo tu = None \<longrightarrow> task_relatedTo (tasks (updateTask now i tu s) ! k) = task_relatedTo (tasks s ! k)) \<and>
      (p_task_createdAt tu = None \<longrightarrow> task_createdAt (tasks (updateTask now i tu s) ! k) = task_createdAt (tasks s ! k)) \<and>
      task_updatedAt (tasks (updateTask now i tu s) ! k) =
        now (length (filter (\<lambda>r. task_id r = i) (take k (tasks s)))))"
  by (rule conjI [OF updateContact_fields conjI [OF updateLead_fields
        conjI [OF updateDeal_fields updateTask_fields]]])

theorem C2_update_keeps_absent_fields_witness:
  "0 < length (contacts exampleStore) \<and>
   contact_id (contacts exampleStore ! 0) = uuidA \<and>
   contact_email (contacts (updateContact (frozenClock 2000) uuidA (renameContact ''Ada King'') exampleStore) ! 0) =
     contact_email (contacts exampleStore ! 0) \<and>
   contact_createdAt (contacts (updateContact (frozenClock 2000) uuidA (renameContact ''Ada King'') exampleStore) ! 0) =
     contact_createdAt (contacts exampleStore ! 0) \<and>
   contact_updatedAt (contacts (updateContact (frozenClock 2000) uuidA (renameContact ''Ada King'') exampleStore) ! 0) = 2000 \<and>
   0 < length (leads exampleStore) \<and>
   lead_id (leads exampleStore ! 0) = uuidB \<and>
   lead_value (leads (updateLead (frozenClock 2000) uuidB (leadStatusUpdate Converted) exampleStore) ! 0) =
     lead_value (leads exampleStore ! 0) \<and>
   lead_createdAt (leads (updateLead (frozenClock 2000) uuidB (leadStatusUpdate Converted) exampleStore) ! 0) =
     lead_createdAt (leads exampleStore ! 0) \<and>
   lead_updatedAt (leads (updateLead (frozenClock 2000) uuidB (leadStatusUpdate Converted) exampleStore) ! 0) = 2000 \<and>
   0 < length (deals exampleStore) \<and>
   deal_id (deals exampleStore ! 0) = uuidC \<and>
   deal_value (deals (updateDeal (frozenClock 2000) uuidC (stageUpdate ClosedWon) exampleStore) ! 0) =
     deal_value (deals exampleStore ! 0) \<and>
   deal_createdAt (deals (updateDeal (frozenClock 2000) uuidC (stageUpdate ClosedWon) exampleStore) ! 0) =
     deal_createdAt (deals exampleStore ! 0) \<and>
   deal_updatedAt (deals (updateDeal (frozenClock 2000) uuidC (stageUpdate ClosedWon) exampleStore) ! 0) = 2000 \<and>
   0 < length (tasks exampleStore) \<and>
   task_id (tasks exampleStore ! 0) = uuidD \<and>
   task_title (tasks (updateTask (frozenClock 2000) uuidD (taskStatusUpdate Completed) exampleStore) ! 0) =
     task_title (tasks exampleStore ! 0) \<and>
   task_createdAt (tasks (updateTask (frozenClock 2000) uuidD (taskStatusUpdate Completed) exampleStore) ! 0) =
     task_createdAt (tasks exampleStore ! 0) \<and>
   task_updatedAt (tasks (updateTask (frozenClock 2000) uuidD (taskStatusUpdate Completed) exampleStore) ! 0) = 2000"
proof -
  have pre:
    "0 < length (contacts exampleStore)" "contact_id (contacts exampleStore ! 0) = uuidA"
    "0 < length (leads exampleStore)" "lead_id (leads exampleStore ! 0) = uuidB"
    "0 < length (deals exampleStore)" "deal_id (deals exampleStore ! 0) = uuidC"
    "0 < length (tasks exampleStore)" "task_id (tasks exampleStore ! 0) = uuidD"
    by (simp_all add: example_defs store_defs)
  have absent:
    "p_contact_email (renameContact ''Ada King'') = None"
    "p_contact_createdAt (renameContact ''Ada King'') = None"
    "p_lead_value (leadStatusUpdate Converted) = None"
    "p_lead_createdAt (leadStatusUpdate Converted) = None"
    "p_deal_value (stageUpdate ClosedWon) = None"
    "p_deal_createdAt (stageUpdate ClosedWon) = None"
    "p_task_title (taskStatusUpdate Completed) = None"
    "p_task_createdAt (taskStatusUpdate Completed) = None"
    by (simp_all add: example_defs)
  show ?thesis
    using pre absent
      C2_update_keeps_absent_fields [where k = 0 and s = exampleStore
        and now = "frozenClock 2000" and i = uuidA and cu = "renameContact ''Ada King''"]
      C2_update_keeps_absent_fields [where k = 0 and s = exampleStore
        and now = "frozenClock 2000" and i = uuidB and lu = "leadStatusUpdate Converted"]
      C2_update_keeps_absent_fields [where k = 0 and s = exampleStore
        and now = "frozenClock 2000" and i = uuidC and du = "stageUpdate ClosedWon"]
      C2_update_keeps_absent_fields [where k = 0 and s = exampleStore
        and now = "frozenClock 2000" and i = uuidD and tu = "taskStatusUpdate Completed"]
    by (simp add: frozenClock_def)
qed

text \<open>
  Claim C2 as stated fails twice on the example store, whose contact was created with the
  clock readings 1000 and 1001. An update in the millisecond of the last write (the clock
  still reads 1001) leaves \<open>updatedAt\<close> at 1001, not strictly later; and an update whose
  partial carries \<open>createdAt\<close> replaces the record's \<open>createdAt\<close>.
\<close>

theorem C2_update_not_strictly_later:
  "contact_id (contacts exampleStore ! 0) = uuidA \<and>
   \<not> contact_updatedAt (contacts exampleStore ! 0) <
       contact_updatedAt
         (contacts (updateContact (frozenClock 1001) uuidA (renameContact ''Ada King'')
            exampleStore) ! 0) \<and>
   contact_createdAt
      (contacts (updateContact (frozenClock 2000) uuidA
         (noContactUpdates\<lparr>p_contact_createdAt := Some 5\<rparr>) exampleStore) ! 0) \<noteq>
     contact_createdAt (contacts exampleStore ! 0)"
  by (simp add: example_defs store_defs mergeContact_def)

section \<open>The entity store: what an add does\<close>

text \<open>One collection at a time: the result of an add, read off the record it appends.\<close>

lemma addContact_result:
  "fst (addContact uuid now contact_in s) = Undefined \<and>
   contacts (snd (addContact uuid now contact_in s)) = contacts s @ [last (contacts (snd (addContact uuid now contact_in s)))] \<and>
   contact_id (last (contacts (snd (addContact uuid now contact_in s)))) = uuid \<and>
   contact_name (last (contacts (snd (addContact uuid now contact_in s)))) = in_contact_name contact_in \<and>
   contact_email (last (contacts (snd (addContact uuid now contact_in s)))) = in_contact_email contact_in \<and>
   contact_phone (last (contacts (snd (addContact uuid now contact_in s)))) = in_contact_phone contact_in \<and>
   contact_company (last (contacts (snd (addContact uuid now contact_in s)))) = in_contact_company contact_in \<and>
   contact_position (last (contacts (snd (addContact uuid now contact_in s)))) = in_contact_position contact_in \<and>
   contact_tags (last (contacts (snd (addContact uuid now contact_in s)))) = in_contact_tags contact_in \<and>
   contact_notes (last (contacts (snd (addContact uuid now contact_in s)))) = in_contact_notes contact_in \<and>
   contact_createdAt (last (contacts (snd (addContact uuid now contact_in s)))) = now 0 \<and>
   contact_updatedAt (last (contacts (snd (addContact uuid now contact_in s)))) = now 1 \<and>
   (uuid \<notin> set (map contact_id (contacts s)) \<longrightarrow>
      contact_id (last (contacts (snd (addContact uuid now contact_in s)))) \<notin> set (map contact_id (contacts s))) \<and>
   (now 0 = now 1 \<longrightarrow>
      contact_createdAt (last (contacts (snd (addContact uuid now contact_in s)))) = contact_updatedAt (last (contacts (snd (addContact uuid now contact_in s)))))"
  by (simp add: addContact_def Let_def)

lemma addLead_result:
  "fst (addLead uuid now lead_in s) = Undefined \<and>
   leads (snd (addLead uuid now lead_in s)) = leads s @ [last (leads (snd (addLead uuid now lead_in s)))] \<and>
   lead_id (last (leads (snd (addLead uuid now lead_in s)))) = uuid \<and>
   lead_name (last (leads (snd (addLead uuid now lead_in s)))) = in_lead_name lead_in \<and>
   lead_email (last (leads (snd (addLead uuid now lead_in s)))) = in_lead_email lead_in \<and>
   lead_phone (last (leads (snd (addLead uuid now lead_in s)))) = in_lead_phone lead_in \<and>
   lead_company (last (leads (snd (addLead uuid now lead_in s)))) = in_lead_company lead_in \<and>
   lead_value (last (leads (snd (addLead uuid now lead_in s)))) = in_lead_value lead_in \<and>
   lead_status (last (leads (snd (addLead uuid now lead_in s)))) = in_lead_status lead_in \<and>
   lead_assignedTo (last (leads (snd (addLead uuid now lead_in s)))) = in_lead_assignedTo lead_in \<and>
   lead_source (last (leads (snd (addLead uuid now lead_in s)))) = in_lead_source lead_in \<and>
   lead_notes (last (leads (snd (addLead uuid now lead_in s)))) = in_lead_notes lead_in \<and>
   lead_createdAt (last (leads (snd (addLead uuid now lead_in s)))) = now 0 \<and>
   lead_updatedAt (last (leads (snd (addLead uuid now lead_in s)))) = now 1 \<and>
   (uuid \<notin> set (map lead_id (leads s)) \<longrightarrow>
      lead_id (last (leads (snd (addLead uuid now lead_in s)))) \<notin> set (map lead_id (leads s))) \<and>
   (now 0 = now 1 \<longrightarrow>
      lead_createdAt (last (leads (snd (addLead uuid now lead_in s)))) = lead_updatedAt (last (leads (snd (addLead uuid now lead_in s)))))"
  by (simp add: addLead_def Let_def)

lemma addDeal_result:
  "fst (addDeal uuid now deal_in s) = Undefined \<and>
   deals (snd (addDeal uuid now deal_in s)) = deals s @ [last (deals (snd (addDeal uuid now deal_in s)))] \<and>
   deal_id (last (deals (snd (addDeal uuid now deal_in s)))) = uuid \<and>
   deal_title (last (deals (snd (addDeal uuid now deal_in s)))) = in_deal_title deal_in \<and>
   deal_value (last (deals (snd (addDeal uuid now deal_in s)))) = in_deal_value deal_in \<and>
   deal_stage (last (deals (snd (addDeal uuid now deal_in s)))) = in_deal_stage deal_in \<and>
   deal_contactId (last (deals (snd (addDeal uuid now deal_in s)))) = in_deal_contactId deal_in \<and>
   deal_assignedTo (last (deals (snd (addDeal uuid now deal_in s)))) = in_deal_assignedTo deal_in \<and>
   deal_closeDate (last (deals (snd (addDeal uuid now deal_in s)))) = in_deal_closeDate deal_in \<and>
   deal_probability (last (deals (snd (addDeal uuid now deal_in s)))) = in_deal_probability deal_in \<and>
   deal_notes (last (deals (snd (addDeal uuid now deal_in s)))) = in_deal_notes deal_in \<and>
   deal_createdAt (last (deals (snd (addDeal uuid now deal_in s)))) = now 0 \<and>
   deal_updatedAt (last (deals (snd (addDeal uuid now deal_in s)))) = now 1 \<and>
   (uuid \<notin> set (map deal_id (deals s)) \<longrightarrow>
      deal_id (last (deals (snd (addDeal uuid now deal_in s)))) \<notin> set (map deal_id (deals s))) \<and>
   (now 0 = now 1 \<longrightarrow>
      deal_createdAt (last (deals (snd (addDeal uuid now deal_in s)))) = deal_updatedAt (last (deals (snd (addDeal uuid now deal_in s)))))"
  by (simp add: addDeal_def Let_def)

lemma addTask_result:
  "fst (addTask uuid now task_in s) = Undefined \<and>
   tasks (snd (addTask uuid now task_in s)) = tasks s @ [last (tasks (snd (addTask uuid now task_in s)))] \<and>
   task_id (last (tasks (snd (addTask uuid now task_in s)))) = uuid \<and>
   task_title (last (tasks (snd (addTask uuid now task_in s)))) = in_task_title task_in \<and>
   task_description (last (tasks (snd (addTask uuid now task_in s)))) = in_task_description task_in \<and>
   task_dueDate (last (tasks (snd (addTask uuid now task_in s)))) = in_task_dueDate task_in \<and>
   task_priority (last (tasks (snd (addTask uuid now task_in s)))) = in_task_priority task_in \<and>
   task_status (last (tasks (snd (addTask uuid now task_in s)))) = in_task_status task_in \<and>
   task_assignedTo (last (tasks (snd (addTask uuid now task_in s)))) = in_task_assignedTo task_in \<and>
   task_relatedTo (last (tasks (snd (addTask uuid now task_in s)))) = in_task_relatedTo task_in \<and>
   task_createdAt (last (tasks (snd (addTask uuid now task_in s)))) = now 0 \<and>
   task_updatedAt (last (tasks (snd (addTask uuid now task_in s)))) = now 1 \<and>
   (uuid \<notin> set (map task_id (tasks s)) \<longrightarrow>
      task_id (last (tasks (snd (addTask uuid now task_in s)))) \<notin> set (map task_id (tasks s))) \<and>
   (now 0 = now 1 \<longrightarrow>
      task_createdAt (last (tasks (snd (addTask uuid now task_in s)))) = task_updatedAt (last (tasks (snd (addTask uuid now task_in s)))))"
  by (simp add: addTask_def Let_def)

text \<open>
  Claim C1, as the code has it. An add is total; it appends exactly one record at the end of
  its collection, built from the caller's fields, with the id the generator returned and
  with \<open>createdAt\<close> and \<open>updatedAt\<close> the first and the second reading of the clock. The
  id is distinct from the ids already in the collection whenever the generator's value is;
  the two timestamps are equal whenever the two readings are. The call evaluates to
  \<^verbatim>\<open>undefined\<close>: it does not return the id.
\<close>

theorem C1_add_appends_one_record:
  "(fst (addContact uuid now contact_in s) = Undefined \<and>
    contacts (snd (addContact uuid now contact_in s)) = contacts s @ [last (contacts (snd (addContact uuid now contact_in s)))] \<and>
    contact_id (last (contacts (snd (addContact uuid now contact_in s)))) = uuid \<and>
    contact_name (last (contacts (snd (addContact uuid now contact_in s)))) = in_contact_name contact_in \<and>
    contact_email (last (contacts (snd (addContact uuid now contact_in s)))) = in_contact_email contact_in \<and>
    contact_phone (last (contacts (snd (addContact uuid now contact_in s)))) = in_contact_phone contact_in \<and>
    contact_company (last (contacts (snd (addContact uuid now contact_in s)))) = in_contact_company contact_in \<and>
    contact_position (last (contacts (snd (addContact uuid now contact_in s)))) = in_contact_position contact_in \<and>
    contact_tags (last (contacts (snd (addContact uuid now contact_in s)))) = in_contact_tags contact_in \<and>
    contact_notes (last (contacts (snd (addContact uuid now contact_in s)))) = in_contact_notes contact_in \<and>
    contact_createdAt (last (contacts (snd (addContact uuid now contact_in s)))) = now 0 \<and>
    contact_updatedAt (last (contacts (snd (addContact uuid now contact_in s)))) = now 1 \<and>
    (uuid \<notin> set (map contact_id (contacts s)) \<longrightarrow>
       contact_id (last (contacts (snd (addContact uuid now contact_in s)))) \<notin> set (map contact_id (contacts s))) \<and>
    (now 0 = now 1 \<longrightarrow>
       contact_createdAt (last (contacts (snd (addContact uuid now contact_in s)))) = contact_updatedAt (last (contacts (snd (addContact uuid now contact_in s)))))) \<and>
   (fst (addLead uuid now lead_in s) = Undefined \<and>
    leads (snd (addLead uuid now lead_in s)) = leads s @ [last (leads (snd (addLead uuid now lead_in s)))] \<and>
    lead_id (last (leads (snd (addLead uuid now lead_in s)))) = uuid \<and>
    lead_name (last (leads (snd (addLead uuid now lead_in s)))) = in_lead_name lead_in \<and>
    lead_email (last (leads (snd (addLead uuid now lead_in s)))) = in_lead_email lead_in \<and>
    lead_phone (last (leads (snd (addLead uuid now lead_in s)))) = in_lead_phone lead_in \<and>
    lead_company (last (leads (snd (addLead uuid now lead_in s)))) = in_lead_company lead_in \<and>
    lead_value (last (leads (snd (addLead uuid now lead_in s)))) = in_lead_value lead_in \<and>
    lead_status (last (leads (snd (addLead uuid now lead_in s)))) = in_lead_status lead_in \<and>
    lead_assignedTo (last (leads (snd (addLead uuid now lead_in s)))) = in_lead_assignedTo lead_in \<and>
    lead_source (last (leads (snd (addLead uuid now lead_in s)))) = in_lead_source lead_in \<and>
    lead_notes (last (leads (snd (addLead uuid now lead_in s)))) = in_lead_notes lead_in \<and>
    lead_createdAt (last (leads (snd (addLead uuid now lead_in s)))) = now 0 \<and>
    lead_updatedAt (last (leads (snd (addLead uuid now lead_in s)))) = now 1 \<and>
    (uuid \<notin> set (map lead_id (leads s)) \<longrightarrow>
       lead_id (last (leads (snd (addLead uuid now lead_in s)))) \<notin> set (map lead_id (leads s))) \<and>
    (now 0 = now 1 \<longrightarrow>
       lead_createdAt (last (leads (snd (addLead uuid now lead_in s)))) = lead_updatedAt (last (leads (snd (addLead uuid now lead_in s)))))) \<and>
   (fst (addDeal uuid now deal_in s) = Undefined \<and>
    deals (snd (addDeal uuid now deal_in s)) = deals s @ [last (deals (snd (addDeal uuid now deal_in s)))] \<and>
    deal_id (last (deals (snd (addDeal uuid now deal_in s)))) = uuid \<and>
    deal_title (last (deals (snd (addDeal uuid now deal_in s)))) = in_deal_title deal_in \<and>
    deal_value (last (deals (snd (addDeal uuid now deal_in s)))) = in_deal_value deal_in \<and>
    deal_stage (last (deals (snd (addDeal uuid now deal_in s)))) = in_deal_stage deal_in \<and>
    deal_contactId (last (deals (snd (addDeal uuid now deal_in s)))) = in_deal_contactId deal_in \<and>
    deal_assignedTo (last (deals (snd (addDeal uuid now deal_in s)))) = in_deal_assignedTo deal_in \<and>
    deal_closeDate (last (deals (snd (addDeal uuid now deal_in s)))) = in_deal_closeDate deal_in \<and>
    deal_probability (last (deals (snd (addDeal uuid now deal_in s)))) = in_deal_probability deal_in \<and>
    deal_notes (last (deals (snd (addDeal uuid now deal_in s)))) = in_deal_notes deal_in \<and>
    deal_createdAt (last (deals (snd (addDeal uuid now deal_in s)))) = now 0 \<and>
    deal_updatedAt (last (deals (snd (addDeal uuid now deal_in s)))) = now 1 \<and>
    (uuid \<notin> set (map deal_id (deals s)) \<longrightarrow>
       deal_id (last (deals (snd (addDeal uuid now deal_in s)))) \<notin> set (map deal_id (deals s))) \<and>
    (now 0 = now 1 \<longrightarrow>
       deal_createdAt (last (deals (snd (addDeal uuid now deal_in s)))) = deal_updatedAt (last (deals (snd (addDeal uuid now deal_in s)))))) \<and>
   (fst (addTask uuid now task_in s) = Undefined \<and>
    tasks (snd (addTask uuid now task_in s)) = tasks s @ [last (tasks (snd (addTask uuid now task_in s)))] \<and>
    task_id (last (tasks (snd (addTask uuid now task_in s)))) = uuid \<and>
    task_title (last (tasks (snd (addTask uuid now task_in s)))) = in_task_title task_in \<and>
    task_description (last (tasks (snd (addTask uuid now task_in s)))) = in_task_description task_in \<and>
    task_dueDate (last (tasks (snd (addTask uuid now task_in s)))) = in_task_dueDate task_in \<and>
    task_priority (last (tasks (snd (addTask uuid now task_in s)))) = in_task_priority task_in \<and>
    task_status (last (tasks (snd (addTask uuid now task_in s)))) = in_task_status task_in \<and>
    task_assignedTo (last (tasks (snd (addTask uuid now task_in s)))) = in_task_assignedTo task_in \<and>
    task_relatedTo (last (tasks (snd (addTask uuid now task_in s)))) = in_task_relatedTo task_in \<and>
    task_createdAt (last (tasks (snd (addTask uuid now task_in s)))) = now 0 \<and>
    task_updatedAt (last (tasks (snd (addTask uuid now task_in s)))) = now 1 \<and>
    (uuid \<notin> set (map task_id (tasks s)) \<longrightarrow>
       task_id (last (tasks (snd (addTask uuid now task_in s)))) \<notin> set (map task_id (tasks s))) \<and>
    (now 0 = now 1 \<longrightarrow>
       task_createdAt (last (tasks (snd (addTask uuid now task_in s)))) = task_updatedAt (last (tasks (snd (addTask uuid now task_in s))))))"
  by (rule conjI [OF addContact_result conjI [OF addLead_result
        conjI [OF addDeal_result addTask_result]]])

theorem C1_add_appends_one_record_witness:
  "uuidE \<notin> set (map contact_id (contacts exampleStore)) \<and>
   contact_id (last (contacts (snd (addContact uuidE (frozenClock 2000) exampleContact exampleStore)))) \<notin>
     set (map contact_id (contacts exampleStore)) \<and>
   contact_createdAt (last (contacts (snd (addContact uuidE (frozenClock 2000) exampleContact exampleStore)))) =
     contact_updatedAt (last (contacts (snd (addContact uuidE (frozenClock 2000) exampleContact exampleStore)))) \<and>
   fst (addContact uuidE (frozenClock 2000) exampleContact exampleStore) = Undefined \<and>
   uuidE \<notin> set (map lead_id (leads exampleStore)) \<and>
   lead_id (last (leads (snd (addLead uuidE (frozenClock 2000) exampleLead exampleStore)))) \<notin>
     set (map lead_id (leads exampleStore)) \<and>
   lead_createdAt (last (leads (snd (addLead uuidE (frozenClock 2000) exampleLead exampleStore)))) =
     lead_updatedAt (last (leads (snd (addLead uuidE (frozenClock 2000) exampleLead exampleStore)))) \<and>
   fst (addLead uuidE (frozenClock 2000) exampleLead exampleStore) = Undefined \<and>
   uuidE \<notin> set (map deal_id (deals exampleStore)) \<and>
   deal_id (last (deals (snd (addDeal uuidE (frozenClock 2000) exampleDeal exampleStore)))) \<notin>
     set (map deal_id (deals exampleStore)) \<and>
   deal_createdAt (last (deals (snd (addDeal uuidE (frozenClock 2000) exampleDeal exampleStore)))) =
     deal_updatedAt (last (deals (snd (addDeal uuidE (frozenClock 2000) exampleDeal exampleStore)))) \<and>
   fst (addDeal uuidE (frozenClock 2000) exampleDeal exampleStore) = Undefined \<and>
   uuidE \<notin> set (map task_id (tasks exampleStore)) \<and>
   task_id (last (tasks (snd (addTask uuidE (frozenClock 2000) exampleTask exampleStore)))) \<notin>
     set (map task_id (tasks exampleStore)) \<and>
   task_createdAt (last (tasks (snd (addTask uuidE (frozenClock 2000) exampleTask exampleStore)))) =
     task_updatedAt (last (tasks (snd (addTask uuidE (frozenClock 2000) exampleTask exampleStore)))) \<and>
   fst (addTask uuidE (frozenClock 2000) exampleTask exampleStore) = Undefined"
proof -
  have fresh:
    "uuidE \<notin> set (map contact_id (contacts exampleStore))"
    "uuidE \<notin> set (map lead_id (leads exampleStore))"
    "uuidE \<notin> set (map deal_id (deals exampleStore))"
    "uuidE \<notin> set (map task_id (tasks exampleStore))"
    by (simp_all add: example_defs store_defs)
  have clock: "frozenClock 2000 0 = frozenClock 2000 1"
    by (simp add: frozenClock_def)
  from C1_add_appends_one_record [of uuidE "frozenClock 2000" exampleContact exampleStore
      exampleLead exampleDeal exampleTask] fresh clock
  show ?thesis
    by simp
qed

text \<open>
  Claim C1 as stated fails on the example store. Adding a contact there evaluates to
  \<^verbatim>\<open>undefined\<close>, not to the id of the new record. With a clock that ticks between the two
  readings the new record's \<open>createdAt\<close> and \<open>updatedAt\<close> differ. And when the generator
  returns an id the collection already holds, the store appends the record all the same,
  so its id is not distinct from the ids already there: the store never compares ids.
\<close>

theorem C1_add_returns_no_id:
  "fst (addContact uuidE (tickingClock 2000) exampleContact exampleStore) \<noteq>
     ReturnedString
       (contact_id (last (contacts
          (snd (addContact uuidE (tickingClock 2000) exampleContact exampleStore))))) \<and>
   contact_createdAt (last (contacts
       (snd (addContact uuidE (tickingClock 2000) exampleContact exampleStore)))) \<noteq>
     contact_updatedAt (last (contacts
       (snd (addContact uuidE (tickingClock 2000) exampleContact exampleStore)))) \<and>
   contact_id (last (contacts
       (snd (addContact uuidA (frozenClock 2000) exampleContact exampleStore)))) \<in>
     set (map contact_id (contacts exampleStore))"
  by (simp add: example_defs store_defs)

section \<open>Pipeline board: the end of a drag\<close>

lemma find_holds: "find P xs = Some x \<Longrightarrow> P x \<and> x \<in> set xs"
  by (induction xs) (auto split: if_splits)

lemma Stage_str_inj: "Stage_str a = Stage_str b \<longleftrightarrow> a = b"
  by (cases a; cases b) simp_all

lemma resolveStage_column: "resolveStage (Stage_str st) ds = Some st"
  by (cases st) (simp_all add: resolveStage_def pipelineStages_def)

lemma find_no_stage_column:
  "tgt \<notin> range Stage_str \<Longrightarrow>
   find (\<lambda>stage. Stage_str (column_id stage) = tgt) pipelineStages = None"
  by (auto simp add: find_None_iff)

lemma resolveStage_deal:
  "tgt \<notin> range Stage_str \<Longrightarrow>
   resolveStage tgt ds = map_option deal_stage (find (\<lambda>d. deal_id d = tgt) ds)"
  by (simp add: resolveStage_def find_no_stage_column split: option.splits)

lemma handleDragEnd_specified:
  "over_id ev \<noteq> Some (active_id ev) \<Longrightarrow>
   handleDragEnd now ev s = specified_handleDragEnd now ev s"
  by (auto simp add: handleDragEnd_def specified_handleDragEnd_def split: option.splits)

text \<open>
  The handler tests that the item was not dropped on its own id before it looks the dragged
  deal up. When no deal has the id of a stage column the test changes nothing: a deal
  dropped on its own id resolves its own stage, which is no move.
\<close>

lemma handleDragEnd_specified_no_stage_id:
  assumes "\<forall>d\<in>set (deals s). deal_id d \<notin> range Stage_str"
  shows "handleDragEnd now ev s = specified_handleDragEnd now ev s"
proof (cases "over_id ev = Some (active_id ev)")
  case False
  then show ?thesis by (rule handleDragEnd_specified)
next
  case self: True
  show ?thesis
  proof (cases "active_id ev \<in> range Stage_str")
    case True
    with assms have "find (\<lambda>d. deal_id d = active_id ev) (deals s) = None"
      by (auto simp add: find_None_iff)
    with self show ?thesis
      by (simp add: handleDragEnd_def specified_handleDragEnd_def split: option.splits)
  next
    case False
    from resolveStage_deal [OF this] self show ?thesis
      by (auto simp add: handleDragEnd_def specified_handleDragEnd_def split: option.splits)
  qed
qed

text \<open>The ids the store assigns are the 36 characters of a UUID; no stage id is that long.\<close>

lemma uuid_is_no_stage_id: "length i = 36 \<Longrightarrow> i \<notin> range Stage_str"
proof
  assume len: "length i = 36" and "i \<in> range Stage_str"
  then obtain st where "i = Stage_str st" by blast
  with len show False by (cases st) simp_all
qed

lemma specified_handleDragEnd_update:
  "over_id ev = Some tgt \<Longrightarrow> resolveStage tgt (deals s) = Some t \<Longrightarrow>
   find (\<lambda>d. deal_id d = active_id ev) (deals s) = Some d \<Longrightarrow> deal_stage d \<noteq> t \<Longrightarrow>
   specified_handleDragEnd now ev s =
     ([UpdateDealCall (active_id ev) (stageUpdate t)],
      updateDeal now (active_id ev) (stageUpdate t) s)"
  using find_holds [of "\<lambda>d. deal_id d = active_id ev" "deals s" d]
  by (simp add: specified_handleDragEnd_def)

lemma specified_handleDragEnd_nothing:
  "\<not> (\<exists>tgt t d. over_id ev = Some tgt \<and> resolveStage tgt (deals s) = Some t \<and>
        find (\<lambda>d. deal_id d = active_id ev) (deals s) = Some d \<and> deal_stage d \<noteq> t) \<Longrightarrow>
   specified_handleDragEnd now ev s = ([], s)"
  by (auto simp add: specified_handleDragEnd_def split: option.splits)

text \<open>
  Claim C5. On a board whose deals have the ids the store assigns (UUIDs of 36 characters):
  the target stage is the stage of the column when the drop target is one of the six
  columns, and otherwise the current stage of the deal dropped onto, if any. When a target
  stage was resolved and it differs from the current stage of the dragged deal, the
  handler issues exactly one update of that deal with the target stage. In every other
  case (no drop target, no stage resolved, no such deal, or equal stages) it issues nothing
  and the store is as before. The handler is the one the specification words.
\<close>

theorem C5_drag_end_moves_deal:
  "\<forall>d\<in>set (deals s). length (deal_id d) = 36 \<Longrightarrow>
   resolveStage (Stage_str st) (deals s) = Some st \<and>
   (tgt \<notin> range Stage_str \<longrightarrow>
      resolveStage tgt (deals s) =
        map_option deal_stage (find (\<lambda>d. deal_id d = tgt) (deals s))) \<and>
   (over_id ev = Some tgt \<and> resolveStage tgt (deals s) = Some t \<and>
    find (\<lambda>d. deal_id d = active_id ev) (deals s) = Some d \<and> deal_stage d \<noteq> t \<longrightarrow>
      handleDragEnd now ev s =
        ([UpdateDealCall (active_id ev) (stageUpdate t)],
         updateDeal now (active_id ev) (stageUpdate t) s)) \<and>
   (\<not> (\<exists>tgt t d. over_id ev = Some tgt \<and> resolveStage tgt (deals s) = Some t \<and>
          find (\<lambda>d. deal_id d = active_id ev) (deals s) = Some d \<and> deal_stage d \<noteq> t) \<longrightarrow>
      handleDragEnd now ev s = ([], s)) \<and>
   handleDragEnd now ev s = specified_handleDragEnd now ev s"
proof -
  assume uuids: "\<forall>d\<in>set (deals s). length (deal_id d) = 36"
  then have "\<forall>d\<in>set (deals s). deal_id d \<notin> range Stage_str"
    by (simp add: uuid_is_no_stage_id)
  then have same: "handleDragEnd now ev s = specified_handleDragEnd now ev s"
    by (rule handleDragEnd_specified_no_stage_id)
  show ?thesis
  proof (intro conjI impI)
    show "resolveStage (Stage_str st) (deals s) = Some st"
      by (rule resolveStage_column)
    show "resolveStage tgt (deals s) =
        map_option deal_stage (find (\<lambda>d. deal_id d = tgt) (deals s))"
      if "tgt \<notin> range Stage_str"
      using that by (rule resolveStage_deal)
    show "handleDragEnd now ev s =
        ([UpdateDealCall (active_id ev) (stageUpdate t)],
         updateDeal now (active_id ev) (stageUpdate t) s)"
      if "over_id ev = Some tgt \<and> resolveStage tgt (deals s) = Some t \<and>
          find (\<lambda>d. deal_id d = active_id ev) (deals s) = Some d \<and> deal_stage d \<noteq> t"
      using that same specified_handleDragEnd_update [of ev tgt s t d now] by simp
    show "handleDragEnd now ev s = ([], s)"
      if "\<not> (\<exists>tgt t d. over_id ev = Some tgt \<and> resolveStage tgt (deals s) = Some t \<and>
            find (\<lambda>d. deal_id d = active_id ev) (deals s) = Some d \<and> deal_stage d \<noteq> t)"
      using same specified_handleDragEnd_nothing [OF that, of now] by simp
    show "handleDragEnd now ev s = specified_handleDragEnd now ev s"
      by (rule same)
  qed
qed

theorem C5_drag_end_moves_deal_witness:
  "map (\<lambda>d. length (deal_id d)) (deals examplePipeline) = [36, 36] \<and>
   fst (handleDragEnd (frozenClock 4000)
          \<lparr>active_id = uuidC, over_id = Some ''closed-won''\<rparr> examplePipeline) =
     [UpdateDealCall uuidC (stageUpdate ClosedWon)] \<and>
   map deal_stage (deals (snd (handleDragEnd (frozenClock 4000)
          \<lparr>active_id = uuidC, over_id = Some ''closed-won''\<rparr> examplePipeline))) =
     [ClosedWon, Negotiation] \<and>
   fst (handleDragEnd (frozenClock 4000)
          \<lparr>active_id = uuidC, over_id = Some uuidD\<rparr> examplePipeline) =
     [UpdateDealCall uuidC (stageUpdate Negotiation)] \<and>
   handleDragEnd (frozenClock 4000) \<lparr>active_id = uuidC, over_id = None\<rparr> examplePipeline =
     ([], examplePipeline) \<and>
   handleDragEnd (frozenClock 4000) \<lparr>active_id = uuidC, over_id = Some uuidE\<rparr> examplePipeline =
     ([], examplePipeline) \<and>
   handleDragEnd (frozenClock 4000)
       \<lparr>active_id = uuidC, over_id = Some ''prospecting''\<rparr> examplePipeline =
     ([], examplePipeline) \<and>
   handleDragEnd (frozenClock 4000) \<lparr>active_id = uuidC, over_id = Some uuidC\<rparr> examplePipeline =
     ([], examplePipeline) \<and>
   handleDragEnd (frozenClock 4000)
       \<lparr>active_id = uuidC, over_id = Some ''closed-won''\<rparr> examplePipeline =
     specified_handleDragEnd (frozenClock 4000)
       \<lparr>active_id = uuidC, over_id = Some ''closed-won''\<rparr> examplePipeline"
proof -
  let ?now = "frozenClock 4000"
  let ?ds = "deals examplePipeline"
  have lens: "map (\<lambda>d. length (deal_id d)) ?ds = [36, 36]"
    by (simp add: examplePipeline_def example_defs store_defs)
  have uuids: "\<forall>d\<in>set ?ds. length (deal_id d) = 36"
    by (simp add: examplePipeline_def example_defs store_defs)
  have dragged: "find (\<lambda>d. deal_id d = uuidC) ?ds = Some (?ds ! 0)"
    and dragged_stage: "deal_stage (?ds ! 0) = Prospecting"
    and onto: "find (\<lambda>d. deal_id d = uuidD) ?ds = Some (?ds ! 1)"
    and onto_stage: "deal_stage (?ds ! 1) = Negotiation"
    and nowhere: "find (\<lambda>d. deal_id d = uuidE) ?ds = None"
    by (simp_all add: examplePipeline_def example_defs store_defs)
  have ids: "uuidC \<notin> range Stage_str" "uuidD \<notin> range Stage_str" "uuidE \<notin> range Stage_str"
    by (rule uuid_is_no_stage_id, simp add: example_defs)+
  have won: "resolveStage ''closed-won'' ?ds = Some ClosedWon"
    using C5_drag_end_moves_deal [OF uuids, where st = ClosedWon] by simp
  have prosp: "resolveStage ''prospecting'' ?ds = Some Prospecting"
    using C5_drag_end_moves_deal [OF uuids, where st = Prospecting] by simp
  have nego: "resolveStage uuidD ?ds = Some Negotiation"
    using C5_drag_end_moves_deal [OF uuids, where tgt = uuidD] ids onto onto_stage by simp
  have none: "resolveStage uuidE ?ds = None"
    using C5_drag_end_moves_deal [OF uuids, where tgt = uuidE] ids nowhere by simp
  have self: "resolveStage uuidC ?ds = Some Prospecting"
    using C5_drag_end_moves_deal [OF uuids, where tgt = uuidC] ids dragged dragged_stage by simp
  have move_column:
    "handleDragEnd ?now \<lparr>active_id = uuidC, over_id = Some ''closed-won''\<rparr> examplePipeline =
       ([UpdateDealCall uuidC (stageUpdate ClosedWon)],
        updateDeal ?now uuidC (stageUpdate ClosedWon) examplePipeline)"
    using C5_drag_end_moves_deal [OF uuids,
        where ev = "\<lparr>active_id = uuidC, over_id = Some ''closed-won''\<rparr>"
        and tgt = "''closed-won''" and t = ClosedWon and d = "?ds ! 0" and now = ?now]
      won dragged dragged_stage
    by simp
  have moved: "map deal_stage (deals (updateDeal ?now uuidC (stageUpdate ClosedWon) examplePipeline))
      = [ClosedWon, Negotiation]"
    by (simp add: examplePipeline_def example_defs store_defs mergeDeal_def)
  have move_onto:
    "handleDragEnd ?now \<lparr>active_id = uuidC, over_id = Some uuidD\<rparr> examplePipeline =
       ([UpdateDealCall uuidC (stageUpdate Negotiation)],
        updateDeal ?now uuidC (stageUpdate Negotiation) examplePipeline)"
    using C5_drag_end_moves_deal [OF uuids,
        where ev = "\<lparr>active_id = uuidC, over_id = Some uuidD\<rparr>"
        and tgt = uuidD and t = Negotiation and d = "?ds ! 0" and now = ?now]
      nego dragged dragged_stage
    by simp
  have no_target:
    "handleDragEnd ?now \<lparr>active_id = uuidC, over_id = None\<rparr> examplePipeline =
       ([], examplePipeline)"
    using C5_drag_end_moves_deal [OF uuids,
        where ev = "\<lparr>active_id = uuidC, over_id = None\<rparr>" and now = ?now]
    by simp
  have unresolved:
    "handleDragEnd ?now \<lparr>active_id = uuidC, over_id = Some uuidE\<rparr> examplePipeline =
       ([], examplePipeline)"
    using C5_drag_end_moves_deal [OF uuids,
        where ev = "\<lparr>active_id = uuidC, over_id = Some uuidE\<rparr>" and now = ?now] none
    by simp
  have same_stage:
    "handleDragEnd ?now \<lparr>active_id = uuidC, over_id = Some ''prospecting''\<rparr> examplePipeline =
       ([], examplePipeline)"
    using C5_drag_end_moves_deal [OF uuids,
        where ev = "\<lparr>active_id = uuidC, over_id = Some ''prospecting''\<rparr>" and now = ?now]
      prosp dragged dragged_stage
    by simp
  have on_itself:
    "handleDragEnd ?now \<lparr>active_id = uuidC, over_id = Some uuidC\<rparr> examplePipeline =
       ([], examplePipeline)"
    using C5_drag_end_moves_deal [OF uuids,
        where ev = "\<lparr>active_id = uuidC, over_id = Some uuidC\<rparr>" and now = ?now]
      self dragged dragged_stage
    by simp
  have as_specified:
    "handleDragEnd ?now \<lparr>active_id = uuidC, over_id = Some ''closed-won''\<rparr> examplePipeline =
     specified_handleDragEnd ?now \<lparr>active_id = uuidC, over_id = Some ''closed-won''\<rparr>
       examplePipeline"
    using C5_drag_end_moves_deal [OF uuids,
        where ev = "\<lparr>active_id = uuidC, over_id = Some ''closed-won''\<rparr>" and now = ?now]
    by simp
  show ?thesis
    using lens move_column moved move_onto no_target unresolved same_stage on_itself as_specified
    by simp
qed

section \<open>The invariants of the store along a history\<close>

lemma map_key_map_clock:
  "(\<And>x t. key (f x t) = key x) \<Longrightarrow> map key (map_clock p f now xs) = map key xs"
  by (induction xs arbitrary: now) simp_all

lemma set_map_clock:
  "y \<in> set (map_clock p f now xs) \<Longrightarrow> y \<in> set xs \<or> (\<exists>x\<in>set xs. \<exists>k. p x \<and> y = f x (now k))"
proof (induction xs arbitrary: now)
  case Nil
  then show ?case by simp
next
  case (Cons a xs)
  show ?case
  proof (cases "p a")
    case True
    with Cons.prems have "y = f a (now 0) \<or> y \<in> set (map_clock p f (\<lambda>n. now (Suc n)) xs)"
      by simp
    then show ?thesis
    proof
      assume "y = f a (now 0)"
      with True show ?thesis by auto
    next
      assume "y \<in> set (map_clock p f (\<lambda>n. now (Suc n)) xs)"
      from Cons.IH [OF this] show ?thesis by auto
    qed
  next
    case False
    with Cons.prems have "y = a \<or> y \<in> set (map_clock p f now xs)"
      by simp
    with Cons.IH [of now] show ?thesis by auto
  qed
qed

lemma collection_ok_Nil: "collection_ok clk n key created updated []"
  by (simp add: collection_ok_def)

lemma collection_ok_later:
  "collection_ok clk n key created updated xs \<Longrightarrow> n \<le> n' \<Longrightarrow>
   collection_ok clk n' key created updated xs"
  by (auto simp add: collection_ok_def)

lemma collection_ok_add:
  "collection_ok clk n key created updated xs \<Longrightarrow>
   collection_ok clk (n + m) key created updated xs"
  by (erule collection_ok_later) simp

lemma collection_ok_Suc_Suc:
  "collection_ok clk n key created updated xs \<Longrightarrow>
   collection_ok clk (Suc (Suc n)) key created updated xs"
  by (erule collection_ok_later) simp

lemma collection_ok_append:
  assumes "monotone_clock clk" and "collection_ok clk n key created updated xs"
    and "key r \<notin> set (map key xs)" and "created r = clk n" and "updated r = clk (Suc n)"
  shows "collection_ok clk (Suc (Suc n)) key created updated (xs @ [r])"
  using assms by (auto simp add: collection_ok_def monotone_clock_def)

lemma collection_ok_filter:
  "collection_ok clk n key created updated xs \<Longrightarrow>
   collection_ok clk n key created updated (filter P xs)"
  by (auto simp add: collection_ok_def distinct_map_filter)

lemma collection_ok_map_clock:
  assumes ok: "collection_ok clk n key created updated xs"
    and f: "\<And>x t. key (f x t) = key x \<and> created (f x t) = created x \<and> updated (f x t) = t"
  shows "collection_ok clk (n + m) key created updated (map_clock p f (\<lambda>k. clk (n + k)) xs)"
proof -
  have "map key (map_clock p f (\<lambda>k. clk (n + k)) xs) = map key xs"
    using f by (intro map_key_map_clock) simp
  moreover have "created y \<le> updated y \<and> (\<forall>j\<ge>n + m. created y \<le> clk j)"
    if "y \<in> set (map_clock p f (\<lambda>k. clk (n + k)) xs)" for y
  proof -
    from set_map_clock [OF that]
    consider "y \<in> set xs" | x k where "x \<in> set xs" "y = f x (clk (n + k))"
      by blast
    then show ?thesis
    proof cases
      case 1
      with ok show ?thesis by (auto simp add: collection_ok_def)
    next
      case 2
      with ok f show ?thesis by (auto simp add: collection_ok_def)
    qed
  qed
  ultimately show ?thesis
    using ok by (simp add: collection_ok_def)
qed

text \<open>Every action of a history keeps what \<open>store_ok\<close> says, by induction on the history.\<close>

lemma history_store_ok:
  assumes "monotone_clock clk" and "history clk n s"
  shows "store_ok clk n s"
  using assms(2)
proof (induction rule: history.induct)
  case start
  show ?case by (simp add: store_ok_def initialState_def collection_ok_Nil)
next
  case (add_contact n s uuid input)
  then show ?case
    using assms(1)
    by (simp add: store_ok_def addContact_def collection_ok_append collection_ok_Suc_Suc)
next
  case (update_contact n s updates i)
  then show ?case
    by (simp add: store_ok_def updateContact_def collection_ok_map_clock collection_ok_add
        mergeContact_def)
next
  case (delete_contact n s i)
  then show ?case
    by (simp add: store_ok_def deleteContact_def collection_ok_filter)
next
  case (add_lead n s uuid linput)
  then show ?case
    using assms(1)
    by (simp add: store_ok_def addLead_def collection_ok_append collection_ok_Suc_Suc)
next
  case (update_lead n s lupdates i)
  then show ?case
    by (simp add: store_ok_def updateLead_def collection_ok_map_clock collection_ok_add
        mergeLead_def)
next
  case (delete_lead n s i)
  then show ?case
    by (simp add: store_ok_def deleteLead_def collection_ok_filter)
next
  case (add_deal n s uuid dinput)
  then show ?case
    using assms(1)
    by (simp add: store_ok_def addDeal_def collection_ok_append collection_ok_Suc_Suc)
next
  case (update_deal n s dupdates i)
  then show ?case
    by (simp add: store_ok_def updateDeal_def collection_ok_map_clock collection_ok_add
        mergeDeal_def)
next
  case (delete_deal n s i)
  then show ?case
    by (simp add: store_ok_def deleteDeal_def collection_ok_filter)
next
  case (add_task n s uuid tinput)
  then show ?case
    using assms(1)
    by (simp add: store_ok_def addTask_def collection_ok_append collection_ok_Suc_Suc)
next
  case (update_task n s tupdates i)
  then show ?case
    by (simp add: store_ok_def updateTask_def collection_ok_map_clock collection_ok_add
        mergeTask_def)
next
  case (delete_task n s i)
  then show ?case
    by (simp add: store_ok_def deleteTask_def collection_ok_filter)
qed


text \<open>The ids of the records an action keeps, position by position.\<close>

lemma add_keeps_ids:
  "map contact_id (contacts (snd (addContact uuid now c s))) = map contact_id (contacts s) @ [uuid]"
  "map lead_id (leads (snd (addLead uuid now l s))) = map lead_id (leads s) @ [uuid]"
  "map deal_id (deals (snd (addDeal uuid now d s))) = map deal_id (deals s) @ [uuid]"
  "map task_id (tasks (snd (addTask uuid now t s))) = map task_id (tasks s) @ [uuid]"
  by (simp_all add: store_defs Let_def)

lemma update_keeps_ids:
  "p_contact_id cu = None \<Longrightarrow>
     map contact_id (contacts (updateContact now i cu s)) = map contact_id (contacts s)"
  "p_lead_id lu = None \<Longrightarrow> map lead_id (leads (updateLead now i lu s)) = map lead_id (leads s)"
  "p_deal_id du = None \<Longrightarrow> map deal_id (deals (updateDeal now i du s)) = map deal_id (deals s)"
  "p_task_id tu = None \<Longrightarrow> map task_id (tasks (updateTask now i tu s)) = map task_id (tasks s)"
  by (simp_all add: store_defs map_key_map_clock mergeContact_def mergeLead_def mergeDeal_def
      mergeTask_def)

lemma delete_keeps_ids:
  "map contact_id (contacts (deleteContact i s)) = filter (\<lambda>j. j \<noteq> i) (map contact_id (contacts s))"
  "map lead_id (leads (deleteLead i s)) = filter (\<lambda>j. j \<noteq> i) (map lead_id (leads s))"
  "map deal_id (deals (deleteDeal i s)) = filter (\<lambda>j. j \<noteq> i) (map deal_id (deals s))"
  "map task_id (tasks (deleteTask i s)) = filter (\<lambda>j. j \<noteq> i) (map task_id (tasks s))"
  by (simp_all add: store_defs filter_map comp_def)

text \<open>
  Claim C4, as the code has it. In every state the store reaches from the empty store by
  adds, updates and deletes in which every generated id is new to its collection and no
  update carries the keys \<open>id\<close> or \<open>createdAt\<close>, under a clock that never goes backwards:
  the ids of each collection are pairwise distinct and every record has
  \<open>createdAt \<le> updatedAt\<close>. From such a state an add, an update without the key \<open>id\<close>
  and a delete leave the id of every record they keep as it was, in its place: an id is
  assigned by the add and not changed afterwards.
\<close>

theorem C4_history_invariant:
  "monotone_clock clk \<Longrightarrow> history clk n s \<Longrightarrow>
   distinct (map contact_id (contacts s)) \<and>
   distinct (map lead_id (leads s)) \<and>
   distinct (map deal_id (deals s)) \<and>
   distinct (map task_id (tasks s)) \<and>
   (\<forall>r\<in>set (contacts s). contact_createdAt r \<le> contact_updatedAt r) \<and>
   (\<forall>r\<in>set (leads s). lead_createdAt r \<le> lead_updatedAt r) \<and>
   (\<forall>r\<in>set (deals s). deal_createdAt r \<le> deal_updatedAt r) \<and>
   (\<forall>r\<in>set (tasks s). task_createdAt r \<le> task_updatedAt r) \<and>
   (p_contact_id cu = None \<longrightarrow>
      map contact_id (contacts (updateContact now i cu s)) = map contact_id (contacts s)) \<and>
   (p_lead_id lu = None \<longrightarrow>
      map lead_id (leads (updateLead now i lu s)) = map lead_id (leads s)) \<and>
   (p_deal_id du = None \<longrightarrow>
      map deal_id (deals (updateDeal now i du s)) = map deal_id (deals s)) \<and>
   (p_task_id tu = None \<longrightarrow>
      map task_id (tasks (updateTask now i tu s)) = map task_id (tasks s)) \<and>
   map contact_id (contacts (deleteContact i s)) =
     filter (\<lambda>j. j \<noteq> i) (map contact_id (contacts s)) \<and>
   map lead_id (leads (deleteLead i s)) = filter (\<lambda>j. j \<noteq> i) (map lead_id (leads s)) \<and>
   map deal_id (deals (deleteDeal i s)) = filter (\<lambda>j. j \<noteq> i) (map deal_id (deals s)) \<and>
   map task_id (tasks (deleteTask i s)) = filter (\<lambda>j. j \<noteq> i) (map task_id (tasks s)) \<and>
   map contact_id (contacts (snd (addContact uuid now c s))) =
     map contact_id (contacts s) @ [uuid] \<and>
   map lead_id (leads (snd (addLead uuid now l s))) = map lead_id (leads s) @ [uuid] \<and>
   map deal_id (deals (snd (addDeal uuid now d s))) = map deal_id (deals s) @ [uuid] \<and>
   map task_id (tasks (snd (addTask uuid now t s))) = map task_id (tasks s) @ [uuid]"
proof -
  assume "monotone_clock clk" and "history clk n s"
  then have "store_ok clk n s"
    by (rule history_store_ok)
  then have
    "distinct (map contact_id (contacts s))" "distinct (map lead_id (leads s))"
    "distinct (map deal_id (deals s))" "distinct (map task_id (tasks s))"
    "\<forall>r\<in>set (contacts s). contact_createdAt r \<le> contact_updatedAt r"
    "\<forall>r\<in>set (leads s). lead_createdAt r \<le> lead_updatedAt r"
    "\<forall>r\<in>set (deals s). deal_createdAt r \<le> deal_updatedAt r"
    "\<forall>r\<in>set (tasks s). task_createdAt r \<le> task_updatedAt r"
    by (simp_all add: store_ok_def collection_ok_def)
  then show ?thesis
    by (simp add: add_keeps_ids update_keeps_ids delete_keeps_ids)
qed

lemma tickingClock_shift: "(\<lambda>k. tickingClock t (n + k)) = tickingClock (t + int n)"
  by (simp add: fun_eq_iff tickingClock_def)

theorem C4_history_invariant_witness:
  "monotone_clock (tickingClock 1000) \<and>
   history (tickingClock 1000) 9 exampleHistoryStore \<and>
   map contact_id (contacts exampleHistoryStore) = [uuidA] \<and>
   distinct (map contact_id (contacts exampleHistoryStore)) \<and>
   distinct (map lead_id (leads exampleHistoryStore)) \<and>
   distinct (map deal_id (deals exampleHistoryStore)) \<and>
   distinct (map task_id (tasks exampleHistoryStore)) \<and>
   contact_createdAt (contacts exampleHistoryStore ! 0) = 1000 \<and>
   contact_updatedAt (contacts exampleHistoryStore ! 0) = 1008 \<and>
   contact_createdAt (contacts exampleHistoryStore ! 0) \<le>
     contact_updatedAt (contacts exampleHistoryStore ! 0) \<and>
   map contact_id (contacts (updateContact (frozenClock 2000) uuidA
       (renameContact ''Ada Byron'') exampleHistoryStore)) =
     map contact_id (contacts exampleHistoryStore)"
proof -
  let ?clk = "tickingClock 1000"
  have mono: "monotone_clock ?clk"
    by (simp add: monotone_clock_def tickingClock_def)
  have h2: "history ?clk 2 (snd (addContact uuidA (tickingClock 1000) exampleContact initialState))"
    using history.add_contact [OF history.start, of uuidA ?clk exampleContact]
    by (simp add: initialState_def numeral_2_eq_2)
  have h4: "history ?clk 4 (snd (addLead uuidB (tickingClock 1002) exampleLead
      (snd (addContact uuidA (tickingClock 1000) exampleContact initialState))))"
    using history.add_lead [OF h2, of uuidB exampleLead]
    by (simp add: tickingClock_def initialState_def store_defs)
  have h6: "history ?clk 6 (snd (addDeal uuidC (tickingClock 1004) exampleDeal
      (snd (addLead uuidB (tickingClock 1002) exampleLead
      (snd (addContact uuidA (tickingClock 1000) exampleContact initialState))))))"
    using history.add_deal [OF h4, of uuidC exampleDeal]
    by (simp add: tickingClock_def initialState_def store_defs)
  have h8: "history ?clk 8 exampleStore"
    using history.add_task [OF h6, of uuidD exampleTask]
    by (simp add: tickingClock_def initialState_def store_defs exampleStore_def)
  have one: "length (filter (\<lambda>r. contact_id r = uuidA) (contacts exampleStore)) = 1"
    by (simp add: example_defs store_defs)
  have h9: "history ?clk 9
      (updateContact (tickingClock 1008) uuidA (renameContact ''Ada King'') exampleStore)"
    using history.update_contact [OF h8, of "renameContact ''Ada King''" uuidA] one
    by (simp add: tickingClock_shift renameContact_def noContactUpdates_def)
  have h: "history ?clk 9 exampleHistoryStore"
    using history.delete_task [OF h9, of uuidD]
    by (simp add: exampleHistoryStore_def)
  have ids: "map contact_id (contacts exampleHistoryStore) = [uuidA]"
    and stamps: "contact_createdAt (contacts exampleHistoryStore ! 0) = 1000"
      "contact_updatedAt (contacts exampleHistoryStore ! 0) = 1008"
    and key: "p_contact_id (renameContact ''Ada Byron'') = None"
    by (simp_all add: exampleHistoryStore_def example_defs store_defs mergeContact_def)
  from C4_history_invariant [OF mono h, where cu = "renameContact ''Ada Byron''"
      and now = "frozenClock 2000" and i = uuidA] mono h ids stamps key
  show ?thesis
    by simp
qed

text \<open>
  Claim C4 as stated, for any sequence of actions, fails on the example store in four ways.
  An update whose partial carries \<open>id\<close> gives a second contact the id of the first: the
  id of a record has changed and the ids are no longer distinct. An update whose partial
  carries a later \<open>createdAt\<close> leaves \<open>updatedAt\<close> before \<open>createdAt\<close>. An add for which
  the generator returns an id the collection holds appends a second record with that id.
  And an update made after the clock was set back stamps \<open>updatedAt\<close> before \<open>createdAt\<close>.
\<close>

theorem C4_update_can_reassign_id:
  "\<not> distinct (map contact_id (contacts
       (updateContact (frozenClock 3000) uuidB (noContactUpdates\<lparr>p_contact_id := Some uuidA\<rparr>)
          (snd (addContact uuidB (tickingClock 2000) exampleContact exampleStore))))) \<and>
   contact_updatedAt (contacts
       (updateContact (frozenClock 2000) uuidA (noContactUpdates\<lparr>p_contact_createdAt := Some 9000\<rparr>)
          exampleStore) ! 0) <
     contact_createdAt (contacts
       (updateContact (frozenClock 2000) uuidA (noContactUpdates\<lparr>p_contact_createdAt := Some 9000\<rparr>)
          exampleStore) ! 0) \<and>
   \<not> distinct (map contact_id (contacts
       (snd (addContact uuidA (tickingClock 2000) exampleContact exampleStore)))) \<and>
   contact_updatedAt (contacts
       (updateContact (frozenClock 500) uuidA (renameContact ''Ada King'') exampleStore) ! 0) <
     contact_createdAt (contacts
       (updateContact (frozenClock 500) uuidA (renameContact ''Ada King'') exampleStore) ! 0)"
  by (simp add: example_defs store_defs mergeContact_def)

end
